theory Spec2Isabelle
  imports Main "HOL-Library.AList"
begin

section \<open>Python strings\<close>

text \<open>
  Strings are lists of 8-bit characters; \<open>str.lower\<close> is modelled on the ASCII
  letters, \<open>str.split\<close> for a one-character separator (it never returns the empty
  list, so the index \<open>[-1]\<close> of the source is \<open>last\<close>).
\<close>

definition lower_char :: "char \<Rightarrow> char" where
  "lower_char c =
     (let n = (of_char c :: nat) in if 65 \<le> n \<and> n \<le> 90 then char_of (n + 32) else c)"

definition str_lower :: "string \<Rightarrow> string" where
  "str_lower s = map lower_char s"

fun str_split :: "char \<Rightarrow> string \<Rightarrow> string list" where
  "str_split sep [] = [[]]"
| "str_split sep (c # cs) =
     (if c = sep then [] # str_split sep cs
      else (case str_split sep cs of
              [] \<Rightarrow> [[c]]
            | w # ws \<Rightarrow> (c # w) # ws))"

definition digit_char :: "nat \<Rightarrow> char" where
  "digit_char d = char_of (48 + d)"

fun str_nat :: "nat \<Rightarrow> string" where
  "str_nat n = (if n < 10 then [digit_char n] else str_nat (n div 10) @ [digit_char (n mod 10)])"

declare str_nat.simps [simp del]

section \<open>Exceptions\<close>

text \<open>
  \<open>HTTPException\<close> is a subclass of \<open>Exception\<close>: a handler
  \<open>except Exception\<close> catches both constructors, a handler \<open>except HTTPException\<close>
  only the second. \<open>str_exn\<close> is Python's \<open>str(e)\<close>.
\<close>

datatype exn = Exception string | HTTPException nat string

fun str_exn :: "exn \<Rightarrow> string" where
  "str_exn (Exception m) = m"
| "str_exn (HTTPException code d) = str_nat code @ '': '' @ d"

fun status_code :: "exn \<Rightarrow> nat" where
  "status_code (HTTPException code d) = code"
| "status_code (Exception m) = 500"

section \<open>Data model\<close>

datatype JobStatus = PENDING | PROCESSING | COMPLETED | FAILED

text \<open>
  A cell of a pandas table or a value of an event mapping, by what the code observes of it:
  \<^item> \<open>NA\<close>: \<open>None\<close>, \<open>NaN\<close> or \<open>NaT\<close> (\<open>pd.isna\<close> is true);
  \<^item> \<open>Text s\<close>: the Python string \<open>s\<close>;
  \<^item> \<open>Stamp iso fmt\<close>: a \<open>pd.Timestamp\<close> or \<open>datetime\<close> whose \<open>isoformat()\<close> is
    \<open>iso\<close> and whose \<open>strftime('%Y-%m-%d %H:%M:%S')\<close> is \<open>fmt\<close>;
  \<^item> \<open>DateLike iso\<close>: another object with an \<open>isoformat\<close> method;
  \<^item> \<open>Opaque s\<close>: any other scalar, \<open>s\<close> being its \<open>str()\<close>;
  \<^item> \<open>ArrayLike\<close>: a list-like value of several elements, for which \<open>pd.isna\<close> returns
    an array whose truth value is ambiguous (the \<open>if\<close> raises \<open>ValueError\<close>).
\<close>

datatype cell = NA | Text string | Stamp string string | DateLike string | Opaque string | ArrayLike

type_synonym raw_event = "(string \<times> cell) list"
type_synonym event = "(string \<times> string option) list"
type_synonym summary_t = "(string \<times> cell) list"
type_synonym bytes = "char list"
type_synonym doc = string

record dataframe =
  columns :: "string list"
  rows :: "cell list list"

record FileUpload =
  content :: bytes
  name :: string

record UploadFile =
  filename :: string
  body :: bytes

text \<open>The job dictionary: a key that the code may leave unset is an option.\<close>

record job =
  job_id :: string
  status :: JobStatus
  user :: string
  filenames :: "string list"
  total_files :: nat
  use_enhanced_processing :: bool
  created_at :: string
  events :: "event list option"
  summary :: "summary_t option"
  has_laytime_data :: "bool option"
  processed_at :: "string option"
  result_file :: "string option"
  processed_files :: "string list option"
  successful_files :: "nat option"
  error :: "string option"
  failed_at :: "string option"
  batch_name :: "string option"

text \<open>What is written under \<open>UPLOAD_DIR\<close> and \<open>RESULTS_DIR\<close>.\<close>

datatype blob =
    Uploaded bytes
  | ResultData "event list" summary_t bool "string list" nat nat
  | CsvExport dataframe
  | JsonExport "event list"

text \<open>
  The functions imported from \<open>utils.sof_pipeline\<close>, taken as parameters. The import is
  guarded: when it fails all four names are \<open>None\<close> and calling one raises \<open>TypeError\<close>.
  \<open>calculate_laytime\<close> returns the \<open>events_df\<close> of its result.
\<close>

record pipeline =
  process_uploaded_files :: "FileUpload list \<Rightarrow> exn + doc list"
  extract_events_and_summary :: "doc list \<Rightarrow> string \<Rightarrow> exn + dataframe \<times> summary_t"
  calculate_laytime :: "summary_t \<Rightarrow> dataframe \<Rightarrow> exn + dataframe"
  process_clicked_pdf_enhanced :: "bytes \<Rightarrow> string \<Rightarrow> string \<Rightarrow> exn + dataframe \<times> summary_t"

text \<open>
  The environment of one call: configuration, the pipeline, the file system as the call
  meets it (\<open>read_file p\<close> is \<open>open(p, 'rb').read()\<close>; \<open>write_error p\<close> is the exception
  that opening or writing \<open>p\<close> raises, if any), the identifier \<open>uuid.uuid4()\<close> returns and
  the clock.
\<close>

record env =
  GOOGLE_API_KEY :: string
  MAX_FILE_SIZE :: nat
  UPLOAD_DIR :: string
  RESULTS_DIR :: string
  sof_pipeline :: "pipeline option"
  read_file :: "string \<Rightarrow> exn + bytes"
  write_error :: "string \<Rightarrow> exn option"
  uuid4 :: string
  now :: string

text \<open>
  The state of the service: the \<open>jobs\<close> dictionary, the files written, and the background
  tasks scheduled (job identifier, paths and names, enhanced flag).
\<close>

record sys =
  jobs :: "string \<rightharpoonup> job"
  files :: "string \<rightharpoonup> blob"
  background_tasks :: "(string \<times> (string \<times> string) list \<times> bool) list"

definition path_join :: "string \<Rightarrow> string \<Rightarrow> string" where
  "path_join d f = d @ ''/'' @ f"

definition none_call :: exn where
  "none_call = Exception ''TypeError: NoneType object is not callable''"

section \<open>Batch orchestrator\<close>

subsection \<open>Tables to event records\<close>

definition df_empty :: "dataframe \<Rightarrow> bool" where
  "df_empty df = (columns df = [] \<or> rows df = [])"

definition dict_of :: "('k \<times> 'v) list \<Rightarrow> ('k \<times> 'v) list" where
  "dict_of kvs = foldl (\<lambda>d (k, v). AList.update k v d) [] kvs"

definition to_dict_records :: "dataframe \<Rightarrow> raw_event list" where
  "to_dict_records df = map (\<lambda>r. dict_of (zip (columns df) r)) (rows df)"

fun normalize_value :: "cell \<Rightarrow> exn + string option" where
  "normalize_value NA = Inr None"
| "normalize_value ArrayLike = Inl (Exception ''ValueError: truth value of an array is ambiguous'')"
| "normalize_value (Stamp isofmt ymdhms) = Inr (Some isofmt)"
| "normalize_value (DateLike isofmt) = Inr (Some isofmt)"
| "normalize_value (Text s) = Inr (Some s)"
| "normalize_value (Opaque s) = Inr (Some s)"

fun normalize_event :: "raw_event \<Rightarrow> exn + event" where
  "normalize_event [] = Inr []"
| "normalize_event ((k, v) # kvs) =
     (case normalize_value v of
        Inl e \<Rightarrow> Inl e
      | Inr v' \<Rightarrow> (case normalize_event kvs of
                    Inl e \<Rightarrow> Inl e
                  | Inr r \<Rightarrow> Inr ((k, v') # r)))"

fun normalize_events :: "raw_event list \<Rightarrow> exn + event list" where
  "normalize_events [] = Inr []"
| "normalize_events (ev # evs) =
     (case normalize_event ev of
        Inl e \<Rightarrow> Inl e
      | Inr ev' \<Rightarrow> (case normalize_events evs of
                     Inl e \<Rightarrow> Inl e
                   | Inr r \<Rightarrow> Inr (ev' # r)))"

definition frame_events :: "dataframe \<Rightarrow> exn + event list" where
  "frame_events df = (if \<not> df_empty df then normalize_events (to_dict_records df) else Inr [])"

definition tag_summary :: "summary_t \<Rightarrow> string \<Rightarrow> summary_t list" where
  "tag_summary summary_data src =
     (if summary_data \<noteq> [] then [AList.update ''source_file'' (Text src) summary_data] else [])"

subsection \<open>The per-file loop\<close>

record acc =
  all_file_uploads :: "FileUpload list"
  all_events_list :: "event list"
  all_summaries :: "summary_t list"
  processed_filenames :: "string list"

definition acc0 :: acc where
  "acc0 = \<lparr>all_file_uploads = [], all_events_list = [], all_summaries = [], processed_filenames = []\<rparr>"

definition file_extension :: "string \<Rightarrow> string" where
  "file_extension fname = last (str_split CHR ''.'' (str_lower fname))"

text \<open>The branch of the single-document enhanced extraction, after the file is read.\<close>

definition enhanced_body :: "env \<Rightarrow> acc \<Rightarrow> bytes \<Rightarrow> string \<Rightarrow> exn + acc" where
  "enhanced_body E a file_content fname =
     (if GOOGLE_API_KEY E = [] then
        Inl (Exception ''Enhanced processing requires Google API key'')
      else
        (case sof_pipeline E of
           None \<Rightarrow> Inl none_call
         | Some P \<Rightarrow>
             (case process_clicked_pdf_enhanced P file_content fname (GOOGLE_API_KEY E) of
                Inl e \<Rightarrow> Inl e
              | Inr (events_df, summary_data) \<Rightarrow>
                  (case frame_events events_df of
                     Inl e \<Rightarrow> Inl e
                   | Inr events_list \<Rightarrow>
                       Inr (a\<lparr>all_events_list := all_events_list a @ events_list,
                              all_summaries := all_summaries a @ tag_summary summary_data fname,
                              processed_filenames := processed_filenames a @ [fname]\<rparr>)))))"

text \<open>The body of the inner \<open>try\<close>: \<open>Inl\<close> is an exception reaching the handler.\<close>

definition file_body :: "env \<Rightarrow> bool \<Rightarrow> nat \<Rightarrow> acc \<Rightarrow> string \<times> string \<Rightarrow> exn + acc" where
  "file_body E use_enhanced n a pf =
     (case pf of (file_path, fname) \<Rightarrow>
      (case read_file E file_path of
         Inl e \<Rightarrow> Inl e
       | Inr file_content \<Rightarrow>
           (let file_upload = \<lparr>content = file_content, name = fname\<rparr> in
            if use_enhanced \<and> file_extension fname = ''pdf'' \<and> n = 1 then
              enhanced_body E a file_content fname
            else Inr (a\<lparr>all_file_uploads := all_file_uploads a @ [file_upload]\<rparr>))))"

text \<open>One iteration: the handler logs and continues with the lists as they were.\<close>

definition file_step :: "env \<Rightarrow> bool \<Rightarrow> nat \<Rightarrow> acc \<Rightarrow> string \<times> string \<Rightarrow> acc" where
  "file_step E use_enhanced n a pf =
     (case file_body E use_enhanced n a pf of Inl e \<Rightarrow> a | Inr a' \<Rightarrow> a')"

definition file_loop :: "env \<Rightarrow> bool \<Rightarrow> nat \<Rightarrow> acc \<Rightarrow> (string \<times> string) list \<Rightarrow> acc" where
  "file_loop E use_enhanced n a pfs = foldl (file_step E use_enhanced n) a pfs"

subsection \<open>The batch call\<close>

text \<open>
  The body of the second \<open>try\<close> up to the point where the file names are appended: the
  events and summaries it contributes, or the exception that reaches the batch handler.
\<close>

definition batch_body :: "env \<Rightarrow> FileUpload list \<Rightarrow> exn + event list \<times> summary_t list" where
  "batch_body E uploads =
     (case sof_pipeline E of
        None \<Rightarrow> Inl none_call
      | Some P \<Rightarrow>
          (case process_uploaded_files P uploads of
             Inl e \<Rightarrow> Inl e
           | Inr docs \<Rightarrow>
               if docs \<noteq> [] then
                 (if GOOGLE_API_KEY E \<noteq> [] then
                    (case extract_events_and_summary P docs (GOOGLE_API_KEY E) of
                       Inl e \<Rightarrow> Inl e
                     | Inr (events_df, summary_data) \<Rightarrow>
                         (case frame_events events_df of
                            Inl e \<Rightarrow> Inl e
                          | Inr events_list \<Rightarrow>
                              Inr (events_list, tag_summary summary_data ''batch_processed'')))
                  else Inr ([], []))
               else Inr ([], [])))"

definition batch_step :: "env \<Rightarrow> acc \<Rightarrow> acc" where
  "batch_step E a =
     (if all_file_uploads a \<noteq> [] then
        (case batch_body E (all_file_uploads a) of
           Inl e \<Rightarrow> a
         | Inr (events_list, summaries) \<Rightarrow>
             a\<lparr>all_events_list := all_events_list a @ events_list,
               all_summaries := all_summaries a @ summaries,
               processed_filenames := processed_filenames a @ map name (all_file_uploads a)\<rparr>)
      else a)"

subsection \<open>Merging and finalization\<close>

fun combine_summaries :: "summary_t list \<Rightarrow> summary_t \<Rightarrow> summary_t" where
  "combine_summaries [] combined = combined"
| "combine_summaries (s # ss) combined =
     (if s \<noteq> [] \<and> combined = [] then filter (\<lambda>(k, v). k \<noteq> ''source_file'') s
      else combine_summaries ss combined)"

definition truthy :: "string option option \<Rightarrow> bool" where
  "truthy v = (case v of Some (Some s) \<Rightarrow> s \<noteq> [] | _ \<Rightarrow> False)"

definition laytime_flag :: "event list \<Rightarrow> bool" where
  "laytime_flag evs \<longleftrightarrow> length evs > 0 \<and> list_ex (\<lambda>ev. truthy (map_of ev ''laytime_counts'')) evs"

definition results_path :: "env \<Rightarrow> string \<Rightarrow> string" where
  "results_path E jid = path_join (RESULTS_DIR E) (jid @ ''_results.json'')"

definition key_error :: "string \<Rightarrow> exn" where
  "key_error k = Exception ([CHR 0x27] @ k @ [CHR 0x27])"

definition mark_failed :: "env \<Rightarrow> exn \<Rightarrow> job \<Rightarrow> job" where
  "mark_failed E e j = j\<lparr>status := FAILED, error := Some (str_exn e), failed_at := Some (now E)\<rparr>"

definition mark_completed :: "env \<Rightarrow> acc \<Rightarrow> string \<Rightarrow> nat \<Rightarrow> job \<Rightarrow> job" where
  "mark_completed E a path n j =
     j\<lparr>status := COMPLETED,
       events := Some (all_events_list a),
       summary := Some (combine_summaries (all_summaries a) []),
       has_laytime_data := Some (laytime_flag (all_events_list a)),
       processed_at := Some (now E),
       result_file := Some path,
       processed_files := Some (processed_filenames a),
       total_files := n,
       successful_files := Some (length (processed_filenames a))\<rparr>"

text \<open>
  The body of the outer \<open>try\<close>: the exception that leaves it, if any, and the state at
  that moment. The per-file and the batch handlers have already absorbed their exceptions;
  what can still raise is writing the result file and the lookup \<open>jobs[job_id]\<close>.
\<close>

definition orchestrate :: "env \<Rightarrow> sys \<Rightarrow> string \<Rightarrow> (string \<times> string) list \<Rightarrow> bool \<Rightarrow> exn option \<times> sys" where
  "orchestrate E s jid file_paths_and_names use_enhanced =
     (let n = length file_paths_and_names;
          a = batch_step E (file_loop E use_enhanced n acc0 file_paths_and_names);
          path = results_path E jid
      in case write_error E path of
           Some e \<Rightarrow> (Some e, s)
         | None \<Rightarrow>
             (let s1 = s\<lparr>files := (files s)(path \<mapsto>
                          ResultData (all_events_list a) (combine_summaries (all_summaries a) [])
                            (laytime_flag (all_events_list a)) (processed_filenames a) n
                            (length (processed_filenames a)))\<rparr>
              in case jobs s1 jid of
                   None \<Rightarrow> (Some (key_error jid), s1)
                 | Some j \<Rightarrow> (None, s1\<lparr>jobs := (jobs s1)(jid \<mapsto> mark_completed E a path n j)\<rparr>)))"

text \<open>
  The handler of the outer \<open>try\<close> looks the job up again, so a missing job makes the
  \<open>KeyError\<close> leave the routine (the first component of the result).
\<close>

definition on_failure :: "env \<Rightarrow> sys \<Rightarrow> string \<Rightarrow> exn \<Rightarrow> exn option \<times> sys" where
  "on_failure E s jid e =
     (case jobs s jid of
        None \<Rightarrow> (Some (key_error jid), s)
      | Some j \<Rightarrow> (None, s\<lparr>jobs := (jobs s)(jid \<mapsto> mark_failed E e j)\<rparr>))"

definition process_documents_with_sof_pipeline ::
  "env \<Rightarrow> sys \<Rightarrow> string \<Rightarrow> (string \<times> string) list \<Rightarrow> bool \<Rightarrow> exn option \<times> sys" where
  "process_documents_with_sof_pipeline E s jid file_paths_and_names use_enhanced =
     (case orchestrate E s jid file_paths_and_names use_enhanced of
        (None, s') \<Rightarrow> (None, s')
      | (Some e, s') \<Rightarrow> on_failure E s' jid e)"

section \<open>Upload dispatcher\<close>

definition allowed_extensions :: "string list" where
  "allowed_extensions =
     [''.pdf'', ''.docx'', ''.doc'', ''.txt'', ''.png'', ''.jpg'', ''.jpeg'', ''.tiff'', ''.bmp'', ''.webp'']"

fun str_join :: "string \<Rightarrow> string list \<Rightarrow> string" where
  "str_join sep [] = []"
| "str_join sep [x] = x"
| "str_join sep (x # y # ys) = x @ sep @ str_join sep (y # ys)"

definition sq :: string where
  "sq = [CHR 0x27]"

text \<open>
  The text of the two validation errors. (Python joins the extensions in the iteration
  order of a set, which is not fixed; the model lists them as the source does.)
\<close>

definition unsupported_type :: "string \<Rightarrow> string \<Rightarrow> exn" where
  "unsupported_type ext fname =
     HTTPException 400 (''Unsupported file type: '' @ ext @ '' in file '' @ sq @ fname @ sq @
       ''. Supported types: '' @ str_join '', '' allowed_extensions)"

definition too_large :: "env \<Rightarrow> string \<Rightarrow> exn" where
  "too_large E fname =
     HTTPException 400 (''File '' @ sq @ fname @ sq @ '' exceeds the maximum allowed size ('' @
       str_nat (MAX_FILE_SIZE E) @ '' bytes)'')"

definition upload_path :: "env \<Rightarrow> string \<Rightarrow> nat \<Rightarrow> string \<Rightarrow> string" where
  "upload_path E jid i fname = path_join (UPLOAD_DIR E) (jid @ ''_'' @ str_nat i @ ''_'' @ fname)"

text \<open>
  The loop over \<open>enumerate(files)\<close>, from index \<open>i\<close>: each file is checked and then written
  before the next one is looked at. The result is the exception that leaves the loop, or
  \<open>validated_files\<close> and \<open>file_paths_and_names\<close>; the state holds the files written so far.
\<close>

fun save_files ::
  "env \<Rightarrow> string \<Rightarrow> nat \<Rightarrow> UploadFile list \<Rightarrow> string list \<times> (string \<times> string) list \<Rightarrow> sys \<Rightarrow>
     (exn + string list \<times> (string \<times> string) list) \<times> sys" where
  "save_files E jid i [] (validated_files, file_paths_and_names) s =
     (Inr (validated_files, file_paths_and_names), s)"
| "save_files E jid i (f # fs) (validated_files, file_paths_and_names) s =
     (let ext = ''.'' @ file_extension (filename f) in
      if ext \<notin> set allowed_extensions then (Inl (unsupported_type ext (filename f)), s)
      else if length (body f) > MAX_FILE_SIZE E then (Inl (too_large E (filename f)), s)
      else
        (let file_path = upload_path E jid i (filename f) in
         case write_error E file_path of
           Some e \<Rightarrow> (Inl e, s)
         | None \<Rightarrow>
             save_files E jid (Suc i) fs
               (validated_files @ [filename f], file_paths_and_names @ [(file_path, filename f)])
               (s\<lparr>files := (files s)(file_path \<mapsto> Uploaded (body f))\<rparr>)))"

text \<open>\<open>except HTTPException: raise\<close>, then \<open>except Exception\<close> wrapping into a 500.\<close>

fun upload_handler :: "exn \<Rightarrow> exn" where
  "upload_handler (HTTPException code d) = HTTPException code d"
| "upload_handler (Exception m) = HTTPException 500 (''Batch upload failed: '' @ m)"

datatype upload_response = UploadResponse string string "string list" nat bool

datatype batch_response = BatchResponse upload_response "string option" nat

fun response_job_id :: "upload_response \<Rightarrow> string" where
  "response_job_id (UploadResponse msg jid names cnt enhanced) = jid"

definition new_job :: "env \<Rightarrow> string \<Rightarrow> string list \<Rightarrow> bool \<Rightarrow> job" where
  "new_job E jid validated_files use_enhanced =
     \<lparr>job_id = jid, status = PROCESSING, user = ''demo'', filenames = validated_files,
      total_files = length validated_files, use_enhanced_processing = use_enhanced,
      created_at = now E, events = None, summary = None, has_laytime_data = None,
      processed_at = None, result_file = None, processed_files = None,
      successful_files = None, error = None, failed_at = None, batch_name = None\<rparr>"

definition upload_documents ::
  "env \<Rightarrow> sys \<Rightarrow> UploadFile list \<Rightarrow> bool \<Rightarrow> (exn + upload_response) \<times> sys" where
  "upload_documents E s fs use_enhanced =
     (if fs = [] then (Inl (HTTPException 400 ''No files uploaded''), s)
      else
        (let jid = uuid4 E in
         case save_files E jid 0 fs ([], []) s of
           (Inl e, s') \<Rightarrow> (Inl (upload_handler e), s')
         | (Inr (validated_files, file_paths_and_names), s') \<Rightarrow>
             (Inr (UploadResponse (str_nat (length validated_files) @ '' file(s) uploaded successfully'')
                     jid validated_files (length validated_files) use_enhanced),
              s'\<lparr>jobs := (jobs s')(jid \<mapsto> new_job E jid validated_files use_enhanced),
                 background_tasks :=
                   background_tasks s' @ [(jid, file_paths_and_names, use_enhanced)]\<rparr>)))"

definition upload_single_document ::
  "env \<Rightarrow> sys \<Rightarrow> UploadFile \<Rightarrow> bool \<Rightarrow> (exn + upload_response) \<times> sys" where
  "upload_single_document E s f use_enhanced = upload_documents E s [f] use_enhanced"

definition has_label :: "string option \<Rightarrow> bool" where
  "has_label label = (case label of None \<Rightarrow> False | Some b \<Rightarrow> b \<noteq> [])"

definition upload_batch_documents ::
  "env \<Rightarrow> sys \<Rightarrow> UploadFile list \<Rightarrow> bool \<Rightarrow> string option \<Rightarrow> (exn + batch_response) \<times> sys" where
  "upload_batch_documents E s fs use_enhanced label =
     (if fs = [] then (Inl (HTTPException 400 ''No files uploaded''), s)
      else if length fs > 10 then (Inl (HTTPException 400 ''Maximum 10 files per batch''), s)
      else
        (case upload_documents E s fs use_enhanced of
           (Inl e, s') \<Rightarrow> (Inl (upload_handler e), s')
         | (Inr result, s') \<Rightarrow>
             (let jid = response_job_id result in
              if has_label label then
                (case jobs s' jid of
                   None \<Rightarrow> (Inl (upload_handler (key_error jid)), s')
                 | Some j \<Rightarrow>
                     (Inr (BatchResponse result label (length fs)),
                      s'\<lparr>jobs := (jobs s')(jid \<mapsto> j\<lparr>batch_name := label\<rparr>)\<rparr>))
              else (Inr (BatchResponse result label (length fs)), s'))))"

section \<open>Export transformer\<close>

subsection \<open>The pandas operations used\<close>

text \<open>
  \<open>pd.DataFrame(events)\<close> for a list of dictionaries: the columns are the keys in the
  order of their first appearance, and a key an event lacks gives \<open>NaN\<close>.
\<close>

definition ordered_keys :: "'a list \<Rightarrow> 'a list" where
  "ordered_keys ks = foldl (\<lambda>seen k. if k \<in> set seen then seen else seen @ [k]) [] ks"

definition get_cell :: "raw_event \<Rightarrow> string \<Rightarrow> cell" where
  "get_cell ev c = (case map_of ev c of None \<Rightarrow> NA | Some v \<Rightarrow> v)"

definition DataFrame :: "raw_event list \<Rightarrow> dataframe" where
  "DataFrame evs =
     (let cols = ordered_keys (concat (map (map fst) evs))
      in \<lparr>columns = cols, rows = map (\<lambda>ev. map (get_cell ev) cols) evs\<rparr>)"

text \<open>
  \<open>df.drop(col, axis=1)\<close> removes every column labelled \<open>col\<close>; \<open>df[cols]\<close> selects, for
  each label of \<open>cols\<close> in turn, every column that carries it.
\<close>

definition cells_labelled :: "(string \<Rightarrow> bool) \<Rightarrow> string list \<Rightarrow> cell list \<Rightarrow> cell list" where
  "cells_labelled keep cols r = map snd (filter (\<lambda>(c, v). keep c) (zip cols r))"

definition drop_column :: "string \<Rightarrow> dataframe \<Rightarrow> dataframe" where
  "drop_column col df =
     \<lparr>columns = filter (\<lambda>c. c \<noteq> col) (columns df),
      rows = map (cells_labelled (\<lambda>c. c \<noteq> col) (columns df)) (rows df)\<rparr>"

definition drop_if_present :: "dataframe \<Rightarrow> string \<Rightarrow> dataframe" where
  "drop_if_present df col = (if col \<in> set (columns df) then drop_column col df else df)"

definition select_columns :: "string list \<Rightarrow> dataframe \<Rightarrow> dataframe" where
  "select_columns cols df =
     \<lparr>columns = concat (map (\<lambda>c. filter (\<lambda>k. k = c) (columns df)) cols),
      rows = map (\<lambda>r. concat (map (\<lambda>c. cells_labelled (\<lambda>k. k = c) (columns df) r) cols)) (rows df)\<rparr>"

subsection \<open>Column normalization\<close>

definition columns_to_remove :: "string list" where
  "columns_to_remove =
     [''start'', ''end'', ''duration'', ''laytime_utilization_%'', ''event'', ''date'',
      ''description'', ''raw_line'', ''filename'']"

definition preferred_columns :: "string list" where
  "preferred_columns =
     [''Event'', ''start_time_iso'', ''end_time_iso'', ''Date'', ''Duration'', ''Laytime'',
      ''Raw Line'', ''Filename'']"

definition final_columns :: "dataframe \<Rightarrow> string list" where
  "final_columns df = filter (\<lambda>col. col \<in> set (columns df)) preferred_columns"

definition normalize_columns :: "dataframe \<Rightarrow> dataframe" where
  "normalize_columns df =
     (let df1 = drop_if_present df ''laytime_counts'';
          df2 = foldl drop_if_present df1 columns_to_remove
      in select_columns (final_columns df2) df2)"

text \<open>
  The laytime recomputation: attempted when the summary and the table are non-empty; any
  exception (also the failing import) is logged and the table is kept as it was.
\<close>

definition with_laytime :: "env \<Rightarrow> summary_t \<Rightarrow> dataframe \<Rightarrow> dataframe" where
  "with_laytime E summ df =
     (if summ \<noteq> [] \<and> \<not> df_empty df then
        (case sof_pipeline E of
           None \<Rightarrow> df
         | Some P \<Rightarrow> (case calculate_laytime P summ df of Inl e \<Rightarrow> df | Inr df' \<Rightarrow> df'))
      else df)"

definition export_table :: "env \<Rightarrow> summary_t \<Rightarrow> raw_event list \<Rightarrow> dataframe" where
  "export_table E summ evs = normalize_columns (with_laytime E summ (DataFrame evs))"

subsection \<open>Serialization\<close>

fun clean_value :: "cell \<Rightarrow> exn + string option" where
  "clean_value NA = Inr None"
| "clean_value ArrayLike = Inl (Exception ''ValueError: truth value of an array is ambiguous'')"
| "clean_value (Text s) = Inr (if s = [] then None else Some s)"
| "clean_value (Stamp isofmt ymdhms) = Inr (Some ymdhms)"
| "clean_value (DateLike isofmt) = Inr (Some isofmt)"
| "clean_value (Opaque s) = Inr (Some s)"

fun clean_items :: "raw_event \<Rightarrow> exn + event" where
  "clean_items [] = Inr []"
| "clean_items ((k, v) # kvs) =
     (case clean_value v of
        Inl e \<Rightarrow> Inl e
      | Inr v' \<Rightarrow> (case clean_items kvs of
                    Inl e \<Rightarrow> Inl e
                  | Inr r \<Rightarrow> Inr ((k, v') # r)))"

fun clean_rows :: "string list \<Rightarrow> cell list list \<Rightarrow> exn + event list" where
  "clean_rows cols [] = Inr []"
| "clean_rows cols (r # rs) =
     (case clean_items (zip cols r) of
        Inl e \<Rightarrow> Inl e
      | Inr clean_event \<Rightarrow> (case clean_rows cols rs of
                     Inl e \<Rightarrow> Inl e
                   | Inr clean_events \<Rightarrow> Inr (dict_of clean_event # clean_events)))"

datatype file_response = FileResponse string string string

definition invalid_format :: exn where
  "invalid_format =
     HTTPException 400 (''Invalid export format. Use '' @ sq @ ''csv'' @ sq @ '' or '' @ sq @ ''json'' @ sq)"

text \<open>The body of the \<open>try\<close> of \<open>export_data\<close>.\<close>

definition export_body ::
  "env \<Rightarrow> sys \<Rightarrow> string \<Rightarrow> summary_t \<Rightarrow> raw_event list \<Rightarrow> string \<Rightarrow> (exn + file_response) \<times> sys" where
  "export_body E s jid summ evs export_format =
     (let events_df = export_table E summ evs in
      if str_lower export_format = ''csv'' then
        (let csv_file = path_join (RESULTS_DIR E) (jid @ ''_export.csv'') in
         case write_error E csv_file of
           Some e \<Rightarrow> (Inl e, s)
         | None \<Rightarrow>
             (Inr (FileResponse csv_file ''text/csv'' (''sof_events_'' @ take 8 jid @ ''.csv'')),
              s\<lparr>files := (files s)(csv_file \<mapsto> CsvExport events_df)\<rparr>))
      else if str_lower export_format = ''json'' then
        (case clean_rows (columns events_df) (rows events_df) of
           Inl e \<Rightarrow> (Inl e, s)
         | Inr clean_events \<Rightarrow>
             (let json_file = path_join (RESULTS_DIR E) (jid @ ''_export.json'') in
              case write_error E json_file of
                Some e \<Rightarrow> (Inl e, s)
              | None \<Rightarrow>
                  (Inr (FileResponse json_file ''application/json''
                          (''sof_events_'' @ take 8 jid @ ''.json'')),
                   s\<lparr>files := (files s)(json_file \<mapsto> JsonExport clean_events)\<rparr>)))
      else (Inl invalid_format, s))"

text \<open>The stored events (null or string values) as the values \<open>pd.DataFrame\<close> receives.\<close>

definition as_cell :: "string option \<Rightarrow> cell" where
  "as_cell v = (case v of None \<Rightarrow> NA | Some x \<Rightarrow> Text x)"

definition stored_events :: "event list \<Rightarrow> raw_event list" where
  "stored_events evs = map (map (\<lambda>(k, v). (k, as_cell v))) evs"

text \<open>
  The event source: the request body when it is non-empty, otherwise \<open>job["events"]\<close>
  (a \<open>KeyError\<close> outside the \<open>try\<close> when the key is unset).
\<close>

definition export_events :: "job \<Rightarrow> raw_event list \<Rightarrow> exn + raw_event list" where
  "export_events j request_events =
     (if request_events \<noteq> [] then Inr request_events
      else (case events j of
              None \<Rightarrow> Inl (key_error ''events'')
            | Some evs \<Rightarrow> Inr (stored_events evs)))"

definition job_summary :: "job \<Rightarrow> summary_t" where
  "job_summary j = (case summary j of None \<Rightarrow> [] | Some m \<Rightarrow> m)"

text \<open>
  The handler of \<open>export_data\<close> is a bare \<open>except Exception\<close>: it has no
  \<open>except HTTPException: raise\<close> before it, so every exception of the body, also an
  \<open>HTTPException\<close>, is wrapped into a 500.
\<close>

definition export_handler :: "exn \<Rightarrow> exn" where
  "export_handler e = HTTPException 500 (''Export failed: '' @ str_exn e)"

definition export_data ::
  "env \<Rightarrow> sys \<Rightarrow> string \<Rightarrow> raw_event list \<Rightarrow> string \<Rightarrow> (exn + file_response) \<times> sys" where
  "export_data E s jid request_events export_format =
     (case jobs s jid of
        None \<Rightarrow> (Inl (HTTPException 404 ''Job not found''), s)
      | Some j \<Rightarrow>
          if status j \<noteq> COMPLETED then (Inl (HTTPException 400 ''Job not completed yet''), s)
          else
            (case export_events j request_events of
               Inl e \<Rightarrow> (Inl e, s)
             | Inr evs \<Rightarrow>
                 if evs = [] then (Inl (HTTPException 404 ''No events found''), s)
                 else
                   (case export_body E s jid (job_summary j) evs export_format of
                      (Inl e, s') \<Rightarrow> (Inl (export_handler e), s')
                    | (Inr r, s') \<Rightarrow> (Inr r, s'))))"

section \<open>The service as a transition system\<close>

text \<open>
  The states the service can reach: requests arrive with any arguments in any environment,
  and a scheduled background task is taken off the queue and run.
\<close>

definition initial :: sys where
  "initial = \<lparr>jobs = Map.empty, files = Map.empty, background_tasks = []\<rparr>"

definition run_task :: "env \<Rightarrow> sys \<Rightarrow> string \<times> (string \<times> string) list \<times> bool \<Rightarrow> sys" where
  "run_task E s t =
     (case t of (jid, file_paths_and_names, use_enhanced) \<Rightarrow>
        snd (process_documents_with_sof_pipeline E
               (s\<lparr>background_tasks := remove1 t (background_tasks s)\<rparr>)
               jid file_paths_and_names use_enhanced))"

inductive reachable :: "sys \<Rightarrow> bool" where
  start: "reachable initial"
| upload: "reachable s \<Longrightarrow> reachable (snd (upload_documents E s fs use_enhanced))"
| upload_single: "reachable s \<Longrightarrow> reachable (snd (upload_single_document E s f use_enhanced))"
| upload_batch: "reachable s \<Longrightarrow> reachable (snd (upload_batch_documents E s fs use_enhanced label))"
| task: "reachable s \<Longrightarrow> t \<in> set (background_tasks s) \<Longrightarrow> reachable (run_task E s t)"
| export: "reachable s \<Longrightarrow> reachable (snd (export_data E s jid request_events export_format))"

section \<open>Invariant and sample data\<close>

text \<open>The job invariant: the successful count, once set, does not exceed the total.\<close>

definition job_ok :: "job \<Rightarrow> bool" where
  "job_ok j = (case successful_files j of None \<Rightarrow> True | Some k \<Rightarrow> k \<le> total_files j)"

text \<open>A small pipeline, environment and state on which the theorems are instantiated.\<close>

definition demo_frame :: dataframe where
  "demo_frame =
     \<lparr>columns = [''Event'', ''start'', ''laytime_counts''],
      rows = [[Text ''Arrived'', Stamp ''2024-01-01T08:00:00'' ''2024-01-01 08:00:00'',
               Opaque ''True'']]\<rparr>"

definition demo_pipeline :: pipeline where
  "demo_pipeline =
     \<lparr>process_uploaded_files = (\<lambda>ups. Inr (map name ups)),
      extract_events_and_summary = (\<lambda>docs k. Inr (demo_frame, [(''port'', Text ''Rotterdam'')])),
      calculate_laytime =
        (\<lambda>summ df. Inr \<lparr>columns = columns df @ [''Laytime''],
                           rows = map (\<lambda>r. r @ [Opaque ''0.5'']) (rows df)\<rparr>),
      process_clicked_pdf_enhanced = (\<lambda>c f k. Inr (demo_frame, [(''port'', Text ''Rotterdam'')]))\<rparr>"

definition demo_env :: env where
  "demo_env =
     \<lparr>GOOGLE_API_KEY = ''key'', MAX_FILE_SIZE = 4, UPLOAD_DIR = ''uploads'',
      RESULTS_DIR = ''results'', sof_pipeline = Some demo_pipeline,
      read_file = (\<lambda>p. Inr ''abc''), write_error = (\<lambda>p. None), uuid4 = ''job1'', now = ''t1''\<rparr>"

text \<open>Variants: no file can be read; only \<open>p1\<close> cannot; also the pipeline import failed.\<close>

definition unreadable_env :: env where
  "unreadable_env = demo_env\<lparr>read_file := (\<lambda>p. Inl (Exception ''FileNotFoundError''))\<rparr>"

definition demo_sys :: sys where
  "demo_sys = initial\<lparr>jobs := [''job1'' \<mapsto> new_job demo_env ''job1'' [''a.txt''] False]\<rparr>"

definition half_env :: env where
  "half_env =
     demo_env\<lparr>read_file :=
       (\<lambda>p. if p = ''p1'' then Inl (Exception ''FileNotFoundError'') else Inr ''abc'')\<rparr>"


text \<open>Variants without API key; in the second, loading the documents raises.\<close>

definition nokey_env :: env where
  "nokey_env = demo_env\<lparr>GOOGLE_API_KEY := []\<rparr>"

definition corrupt_env :: env where
  "corrupt_env =
     nokey_env\<lparr>sof_pipeline :=
       Some (demo_pipeline\<lparr>process_uploaded_files := (\<lambda>ups. Inl (Exception ''corrupt document''))\<rparr>)\<rparr>"

text \<open>The state after one upload, and after its background task has run.\<close>

definition demo_upload :: sys where
  "demo_upload = snd (upload_documents demo_env initial [\<lparr>filename = ''a.txt'', body = ''hi''\<rparr>] False)"

definition demo_done :: sys where
  "demo_done = run_task demo_env demo_upload (''job1'', [(''uploads/job1_0_a.txt'', ''a.txt'')], False)"

definition demo_file :: UploadFile where
  "demo_file = \<lparr>filename = ''a.pdf'', body = ''ab''\<rparr>"

definition bad_file :: UploadFile where
  "bad_file = \<lparr>filename = ''b.exe'', body = ''ab''\<rparr>"

text \<open>What the batch entry point does to the created job: the label, when one is given.\<close>

definition relabel :: "string option \<Rightarrow> job \<Rightarrow> job" where
  "relabel label j = (if has_label label then j\<lparr>batch_name := label\<rparr> else j)"

text \<open>The labels the export removes: \<open>laytime_counts\<close> and the denylist.\<close>

definition removed_columns :: "string list" where
  "removed_columns = ''laytime_counts'' # columns_to_remove"

text \<open>The uploads the loop accumulates when no file takes the enhanced route.\<close>

definition readable_uploads :: "env \<Rightarrow> (string \<times> string) list \<Rightarrow> FileUpload list" where
  "readable_uploads E fpn =
     concat (map (\<lambda>(p, f). case read_file E p of
                                Inl e \<Rightarrow> []
                              | Inr c \<Rightarrow> [\<lparr>content = c, name = f\<rparr>]) fpn)"

text \<open>The paths \<open>csv_file\<close> and \<open>json_file\<close> of the export.\<close>

definition csv_file :: "env \<Rightarrow> string \<Rightarrow> string" where
  "csv_file E jid = path_join (RESULTS_DIR E) (jid @ ''_export.csv'')"

definition json_file :: "env \<Rightarrow> string \<Rightarrow> string" where
  "json_file E jid = path_join (RESULTS_DIR E) (jid @ ''_export.json'')"

section \<open>Properties of the orchestrator\<close>

lemma str_split_nonempty: "str_split sep s \<noteq> []"
  by (induction s) (auto split: list.splits)

lemma file_step_count:
  "length (processed_filenames (file_step E u n a pf)) + length (all_file_uploads (file_step E u n a pf))
     \<le> Suc (length (processed_filenames a) + length (all_file_uploads a))"
  by (auto simp: file_step_def file_body_def enhanced_body_def Let_def
           split: sum.splits prod.splits option.splits if_splits)

lemma file_loop_count:
  "length (processed_filenames (file_loop E u n a pfs)) + length (all_file_uploads (file_loop E u n a pfs))
     \<le> length (processed_filenames a) + length (all_file_uploads a) + length pfs"
  unfolding file_loop_def
proof (induction pfs arbitrary: a)
  case Nil
  then show ?case by simp
next
  case (Cons pf pfs)
  have "length (processed_filenames (foldl (file_step E u n) (file_step E u n a pf) pfs))
        + length (all_file_uploads (foldl (file_step E u n) (file_step E u n a pf) pfs))
        \<le> length (processed_filenames (file_step E u n a pf))
          + length (all_file_uploads (file_step E u n a pf)) + length pfs"
    by (rule Cons.IH)
  with file_step_count [of E u n a pf] show ?case by simp
qed

lemma batch_step_count:
  "length (processed_filenames (batch_step E a))
     \<le> length (processed_filenames a) + length (all_file_uploads a)"
  by (auto simp: batch_step_def split: sum.splits prod.splits)

lemma processed_le_total:
  "length (processed_filenames (batch_step E (file_loop E u (length pfs) acc0 pfs))) \<le> length pfs"
  using batch_step_count [of E "file_loop E u (length pfs) acc0 pfs"]
        file_loop_count [of E u "length pfs" acc0 pfs]
  by (simp add: acc0_def)

lemma orchestrate_cases:
  assumes "jobs s jid = Some j"
  shows "orchestrate E s jid fpn u =
           (case write_error E (results_path E jid) of
              Some e \<Rightarrow> (Some e, s)
            | None \<Rightarrow>
                (let a = batch_step E (file_loop E u (length fpn) acc0 fpn);
                     path = results_path E jid
                 in (None, s\<lparr>files := (files s)(path \<mapsto>
                          ResultData (all_events_list a) (combine_summaries (all_summaries a) [])
                            (laytime_flag (all_events_list a)) (processed_filenames a) (length fpn)
                            (length (processed_filenames a))),
                        jobs := (jobs s)(jid \<mapsto> mark_completed E a path (length fpn) j)\<rparr>)))"
  using assms by (simp add: orchestrate_def Let_def split: option.splits)

text \<open>
  Claim C1. Provided the job exists, the only exceptions that leave the body of the outer
  \<open>try\<close> come from writing the result file. When none leaves it (the routine runs to its
  end) the job is COMPLETED with the count of processed files, whatever happened to the
  single files; when one does, the job is FAILED and carries the text of the exception and
  the failure time.
\<close>

theorem terminal_status:
  assumes "jobs s jid = Some j"
  shows "(fst (orchestrate E s jid fpn u) = None) = (write_error E (results_path E jid) = None) \<and>
         (case orchestrate E s jid fpn u of
            (None, s') \<Rightarrow>
              process_documents_with_sof_pipeline E s jid fpn u = (None, s') \<and>
              map_option status (jobs s' jid) = Some COMPLETED \<and>
              map_option successful_files (jobs s' jid) =
                Some (Some (length (processed_filenames
                  (batch_step E (file_loop E u (length fpn) acc0 fpn)))))
          | (Some e, s') \<Rightarrow>
              fst (process_documents_with_sof_pipeline E s jid fpn u) = None \<and>
              map_option status (jobs (snd (process_documents_with_sof_pipeline E s jid fpn u)) jid)
                = Some FAILED \<and>
              map_option error (jobs (snd (process_documents_with_sof_pipeline E s jid fpn u)) jid)
                = Some (Some (str_exn e)) \<and>
              map_option failed_at (jobs (snd (process_documents_with_sof_pipeline E s jid fpn u)) jid)
                = Some (Some (now E)))"
proof (cases "write_error E (results_path E jid)")
  case None
  then show ?thesis
    using assms
    by (simp add: orchestrate_cases process_documents_with_sof_pipeline_def Let_def
                  mark_completed_def)
next
  case (Some e)
  then show ?thesis
    using assms
    by (simp add: orchestrate_cases process_documents_with_sof_pipeline_def on_failure_def
                  mark_failed_def)
qed

lemma demo_sys_job: "jobs demo_sys ''job1'' = Some (new_job demo_env ''job1'' [''a.txt''] False)"
  by (simp add: demo_sys_def initial_def)

text \<open>All files fail (the only file cannot be read), and the job is COMPLETED with 0 successes.\<close>

theorem terminal_status_witness:
  "jobs demo_sys ''job1'' = Some (new_job demo_env ''job1'' [''a.txt''] False) \<and>
   fst (orchestrate unreadable_env demo_sys ''job1'' [(''p'', ''a.txt'')] False) = None \<and>
   map_option status
     (jobs (snd (process_documents_with_sof_pipeline unreadable_env demo_sys ''job1''
                   [(''p'', ''a.txt'')] False)) ''job1'') = Some COMPLETED \<and>
   map_option successful_files
     (jobs (snd (process_documents_with_sof_pipeline unreadable_env demo_sys ''job1''
                   [(''p'', ''a.txt'')] False)) ''job1'') = Some (Some 0)"
proof -
  have w: "write_error unreadable_env (results_path unreadable_env ''job1'') = None"
    by (simp add: unreadable_env_def demo_env_def)
  have a: "batch_step unreadable_env
             (file_loop unreadable_env False (length [(''p'', ''a.txt'')]) acc0 [(''p'', ''a.txt'')]) = acc0"
    by (simp add: file_loop_def file_step_def file_body_def batch_step_def acc0_def
                  unreadable_env_def demo_env_def)
  show ?thesis
    using terminal_status [OF demo_sys_job, of unreadable_env "[(''p'', ''a.txt'')]" False] w
    unfolding a
    by (auto simp: demo_sys_job acc0_def split: prod.splits option.splits)
qed

lemma file_step_skip: "file_body E u n a pf = Inl e \<Longrightarrow> file_step E u n a pf = a"
  by (simp add: file_step_def)

lemma file_loop_append:
  "file_loop E u n a (xs @ ys) = file_loop E u n (file_loop E u n a xs) ys"
  by (simp add: file_loop_def)



lemma process_job:
  assumes "jobs s jid = Some j"
  shows "jobs (snd (process_documents_with_sof_pipeline E s jid fpn u)) jid =
           Some (case write_error E (results_path E jid) of
                   None \<Rightarrow> mark_completed E (batch_step E (file_loop E u (length fpn) acc0 fpn))
                             (results_path E jid) (length fpn) j
                 | Some e \<Rightarrow> mark_failed E e j)"
  using assms
  by (simp add: process_documents_with_sof_pipeline_def orchestrate_cases on_failure_def Let_def
           split: option.splits)



lemma file_loop_batch_only:
  assumes "\<forall>(p, f) \<in> set fpn. (\<exists>c. read_file E p = Inr c) \<and> \<not> (u \<and> file_extension f = ''pdf'' \<and> n = 1)"
  shows "file_loop E u n a fpn =
           a\<lparr>all_file_uploads := all_file_uploads a @
                map (\<lambda>(p, f). \<lparr>content = projr (read_file E p), name = f\<rparr>) fpn\<rparr>"
  using assms unfolding file_loop_def
proof (induction fpn arbitrary: a)
  case Nil
  then show ?case by simp
next
  case (Cons pf fpn)
  obtain p f where pf: "pf = (p, f)" by (cases pf)
  from Cons.prems pf obtain c where c: "read_file E p = Inr c"
    and ne: "\<not> (u \<and> file_extension f = ''pdf'' \<and> n = 1)" by auto
  have step: "file_step E u n a (p, f) =
                a\<lparr>all_file_uploads := all_file_uploads a @ [\<lparr>content = c, name = f\<rparr>]\<rparr>"
    using c ne by (auto simp: file_step_def file_body_def)
  have rest: "\<forall>(p, f) \<in> set fpn. (\<exists>c. read_file E p = Inr c) \<and> \<not> (u \<and> file_extension f = ''pdf'' \<and> n = 1)"
    using Cons.prems by simp
  show ?case
    unfolding pf by (simp add: step Cons.IH [OF rest] c)
qed

text \<open>
  Claim C10, amended. With no API key, when every file is read and none takes the enhanced
  route, and the document loading call \<open>process_uploaded_files\<close> returns, every file is
  appended to \<open>processed_filenames\<close>: the job completes with \<open>successful_files\<close> equal to
  \<open>total_files\<close>, no events and an empty summary, whatever \<open>extract_events_and_summary\<close> is.
\<close>

theorem no_key_batch:
  assumes "GOOGLE_API_KEY E = []"
    and "\<forall>(p, f) \<in> set fpn. (\<exists>c. read_file E p = Inr c) \<and>
                             \<not> (u \<and> file_extension f = ''pdf'' \<and> length fpn = 1)"
    and "sof_pipeline E = Some P"
    and "process_uploaded_files P
           (map (\<lambda>(p, f). \<lparr>content = projr (read_file E p), name = f\<rparr>) fpn) = Inr docs"
    and "jobs s jid = Some j"
    and "write_error E (results_path E jid) = None"
  shows "\<exists>j'. jobs (snd (process_documents_with_sof_pipeline E s jid fpn u)) jid = Some j' \<and>
              status j' = COMPLETED \<and>
              processed_files j' = Some (map snd fpn) \<and>
              successful_files j' = Some (length fpn) \<and>
              total_files j' = length fpn \<and>
              events j' = Some [] \<and>
              summary j' = Some []"
proof -
  let ?ups = "map (\<lambda>(p, f). \<lparr>content = projr (read_file E p), name = f\<rparr>) fpn"
  have l: "file_loop E u (length fpn) acc0 fpn = acc0\<lparr>all_file_uploads := ?ups\<rparr>"
    using file_loop_batch_only [OF assms(2), of acc0] by (simp add: acc0_def)
  have bb: "batch_body E ?ups = Inr ([], [])"
    using assms(1,3,4) by (simp add: batch_body_def)
  have names: "map name ?ups = map snd fpn"
    by (induction fpn) (auto split: prod.splits)
  have b: "batch_step E (file_loop E u (length fpn) acc0 fpn) =
             acc0\<lparr>all_file_uploads := ?ups, processed_filenames := map snd fpn\<rparr>"
    unfolding l using bb names by (cases "fpn = []") (simp_all add: batch_step_def acc0_def)
  show ?thesis
    unfolding process_job [OF assms(5)] b using assms(6)
    by (simp add: mark_completed_def acc0_def)
qed

theorem no_key_batch_witness:
  "map_option status
     (jobs (snd (process_documents_with_sof_pipeline nokey_env demo_sys ''job1''
                   [(''p'', ''a.txt'')] False)) ''job1'') = Some COMPLETED \<and>
   map_option successful_files
     (jobs (snd (process_documents_with_sof_pipeline nokey_env demo_sys ''job1''
                   [(''p'', ''a.txt'')] False)) ''job1'') = Some (Some 1) \<and>
   map_option events
     (jobs (snd (process_documents_with_sof_pipeline nokey_env demo_sys ''job1''
                   [(''p'', ''a.txt'')] False)) ''job1'') = Some (Some [])"
proof -
  have 1: "GOOGLE_API_KEY nokey_env = []"
    by (simp add: nokey_env_def)
  have 2: "\<forall>(p, f) \<in> set [(''p'', ''a.txt'')]. (\<exists>c. read_file nokey_env p = Inr c) \<and>
             \<not> (False \<and> file_extension f = ''pdf'' \<and> length [(''p'', ''a.txt'')] = 1)"
    by (simp add: nokey_env_def demo_env_def)
  have 3: "sof_pipeline nokey_env = Some demo_pipeline"
    by (simp add: nokey_env_def demo_env_def)
  have 4: "process_uploaded_files demo_pipeline
             (map (\<lambda>(p, f). \<lparr>content = projr (read_file nokey_env p), name = f\<rparr>) [(''p'', ''a.txt'')])
           = Inr [''a.txt'']"
    by (simp add: demo_pipeline_def)
  have 6: "write_error nokey_env (results_path nokey_env ''job1'') = None"
    by (simp add: nokey_env_def demo_env_def)
  from no_key_batch [OF 1 2 3 4 demo_sys_job 6] show ?thesis
    by auto
qed

text \<open>
  The claim as stated fails when \<open>process_uploaded_files\<close> raises: no key is configured, the
  only file is in the batch set, and the job completes with 0 successful files of 1.
\<close>

theorem no_key_batch_counterexample:
  "GOOGLE_API_KEY corrupt_env = [] \<and>
   all_file_uploads (file_loop corrupt_env False 1 acc0 [(''p'', ''a.txt'')]) =
     [\<lparr>content = ''abc'', name = ''a.txt''\<rparr>] \<and>
   map_option status
     (jobs (snd (process_documents_with_sof_pipeline corrupt_env demo_sys ''job1''
                   [(''p'', ''a.txt'')] False)) ''job1'') = Some COMPLETED \<and>
   map_option successful_files
     (jobs (snd (process_documents_with_sof_pipeline corrupt_env demo_sys ''job1''
                   [(''p'', ''a.txt'')] False)) ''job1'') = Some (Some 0) \<and>
   map_option total_files
     (jobs (snd (process_documents_with_sof_pipeline corrupt_env demo_sys ''job1''
                   [(''p'', ''a.txt'')] False)) ''job1'') = Some 1"
proof -
  have l: "file_loop corrupt_env False (length [(''p'', ''a.txt'')]) acc0 [(''p'', ''a.txt'')] =
             acc0\<lparr>all_file_uploads := [\<lparr>content = ''abc'', name = ''a.txt''\<rparr>]\<rparr>"
    by (simp add: file_loop_def file_step_def file_body_def corrupt_env_def nokey_env_def
                  demo_env_def acc0_def)
  have b: "batch_step corrupt_env (acc0\<lparr>all_file_uploads := [\<lparr>content = ''abc'', name = ''a.txt''\<rparr>]\<rparr>)
             = acc0\<lparr>all_file_uploads := [\<lparr>content = ''abc'', name = ''a.txt''\<rparr>]\<rparr>"
    by (simp add: batch_step_def batch_body_def corrupt_env_def nokey_env_def demo_env_def
                  demo_pipeline_def)
  have w: "write_error corrupt_env (results_path corrupt_env ''job1'') = None"
    by (simp add: corrupt_env_def nokey_env_def demo_env_def)
  have k: "GOOGLE_API_KEY corrupt_env = []"
    by (simp add: corrupt_env_def nokey_env_def)
  show ?thesis
    unfolding process_job [OF demo_sys_job] l b w
    using l k by (simp add: mark_completed_def acc0_def)
qed

lemma enhanced_body_uploads:
  "enhanced_body E a c f = Inr a' \<Longrightarrow> all_file_uploads a' = all_file_uploads a"
  by (auto simp: enhanced_body_def split: if_splits option.splits sum.splits prod.splits)

lemma file_step_dispatch:
  assumes "read_file E p = Inr c"
  shows "file_step E u n a (p, f) =
           (if u \<and> file_extension f = ''pdf'' \<and> n = 1
            then (case enhanced_body E a c f of Inl e \<Rightarrow> a | Inr a' \<Rightarrow> a')
            else a\<lparr>all_file_uploads := all_file_uploads a @ [\<lparr>content = c, name = f\<rparr>]\<rparr>)"
  using assms by (simp add: file_step_def file_body_def)

lemma file_step_unreadable:
  assumes "read_file E p = Inl e"
  shows "file_step E u n a (p, f) = a"
  using assms by (simp add: file_step_def file_body_def)

lemma file_loop_no_enhanced:
  assumes "\<forall>(p, f) \<in> set fpn. \<not> (u \<and> file_extension f = ''pdf'' \<and> n = 1)"
  shows "file_loop E u n a fpn =
           a\<lparr>all_file_uploads := all_file_uploads a @ readable_uploads E fpn\<rparr>"
  using assms unfolding file_loop_def
proof (induction fpn arbitrary: a)
  case Nil
  then show ?case by (simp add: readable_uploads_def)
next
  case (Cons pf fpn)
  obtain p f where pf: "pf = (p, f)" by (cases pf)
  from Cons.prems pf have ne: "\<not> (u \<and> file_extension f = ''pdf'' \<and> n = 1)" by auto
  have rest: "\<forall>(p, f) \<in> set fpn. \<not> (u \<and> file_extension f = ''pdf'' \<and> n = 1)"
    using Cons.prems by simp
  show ?case
  proof (cases "read_file E p")
    case (Inl e)
    then show ?thesis
      unfolding pf by (simp add: file_step_unreadable Cons.IH [OF rest] readable_uploads_def)
  next
    case (Inr c)
    have "file_step E u n a (p, f) =
            a\<lparr>all_file_uploads := all_file_uploads a @ [\<lparr>content = c, name = f\<rparr>]\<rparr>"
      using file_step_dispatch [OF Inr, of u n a f] ne by auto
    then show ?thesis
      unfolding pf using Inr
      by (simp add: Cons.IH [OF rest] readable_uploads_def)
  qed
qed

lemma readable_uploads_mem:
  assumes "(p, f) \<in> set fpn" and "read_file E p = Inr c"
  shows "\<lparr>content = c, name = f\<rparr> \<in> set (readable_uploads E fpn)"
  using assms by (force simp: readable_uploads_def)

text \<open>
  Claim C4, amended. For every file of a submission that can be read, whatever happens to
  the other files: the file is in the batch set if and only if the enhanced condition (flag
  set, extension pdf, exactly one file) fails for it. When the condition holds, the loop is
  the enhanced extraction of that file and the batch set stays empty; when it fails for the
  submission, the loop only accumulates the readable files and extracts nothing, so a file
  of the batch set is not also run through the enhanced path. The last conjunct is the
  dispatch of one iteration, for any state of the lists.
\<close>

theorem dispatch_rule:
  "(\<forall>(p, f) \<in> set fpn. \<forall>c. read_file E p = Inr c \<longrightarrow>
      (\<lparr>content = c, name = f\<rparr> \<in> set (all_file_uploads (file_loop E u (length fpn) acc0 fpn)))
      = (\<not> (u \<and> file_extension f = ''pdf'' \<and> length fpn = 1))) \<and>
   (\<forall>p f c. fpn = [(p, f)] \<and> read_file E p = Inr c \<and> u \<and> file_extension f = ''pdf'' \<longrightarrow>
      file_loop E u (length fpn) acc0 fpn =
        (case enhanced_body E acc0 c f of Inl e \<Rightarrow> acc0 | Inr a \<Rightarrow> a) \<and>
      all_file_uploads (file_loop E u (length fpn) acc0 fpn) = []) \<and>
   ((\<forall>(p, f) \<in> set fpn. \<not> (u \<and> file_extension f = ''pdf'' \<and> length fpn = 1)) \<longrightarrow>
      file_loop E u (length fpn) acc0 fpn = acc0\<lparr>all_file_uploads := readable_uploads E fpn\<rparr>) \<and>
   (\<forall>a p f c. read_file E p = Inr c \<longrightarrow>
      file_step E u (length fpn) a (p, f) =
        (if u \<and> file_extension f = ''pdf'' \<and> length fpn = 1
         then (case enhanced_body E a c f of Inl e \<Rightarrow> a | Inr a' \<Rightarrow> a')
         else a\<lparr>all_file_uploads := all_file_uploads a @ [\<lparr>content = c, name = f\<rparr>]\<rparr>))"
proof -
  have single: "file_loop E u (length fpn) acc0 fpn =
                  (case enhanced_body E acc0 c f of Inl e \<Rightarrow> acc0 | Inr a \<Rightarrow> a) \<and>
                all_file_uploads (file_loop E u (length fpn) acc0 fpn) = []"
    if "fpn = [(p, f)]" "read_file E p = Inr c" "u" "file_extension f = ''pdf''" for p f c
  proof -
    have l: "file_loop E u (length fpn) acc0 fpn =
               (case enhanced_body E acc0 c f of Inl e \<Rightarrow> acc0 | Inr a \<Rightarrow> a)"
      using that by (simp add: file_loop_def file_step_dispatch)
    have "all_file_uploads (case enhanced_body E acc0 c f of Inl e \<Rightarrow> acc0 | Inr a \<Rightarrow> a) = []"
      by (auto simp: acc0_def split: sum.splits dest!: enhanced_body_uploads)
    with l show ?thesis by simp
  qed
  have batch: "file_loop E u (length fpn) acc0 fpn = acc0\<lparr>all_file_uploads := readable_uploads E fpn\<rparr>"
    if "\<forall>(p, f) \<in> set fpn. \<not> (u \<and> file_extension f = ''pdf'' \<and> length fpn = 1)"
    using file_loop_no_enhanced [OF that, of E acc0] by (simp add: acc0_def)
  have mem: "(\<lparr>content = c, name = f\<rparr> \<in> set (all_file_uploads (file_loop E u (length fpn) acc0 fpn)))
      = (\<not> (u \<and> file_extension f = ''pdf'' \<and> length fpn = 1))"
    if in_set: "(p, f) \<in> set fpn" and r: "read_file E p = Inr c" for p f c
  proof (cases "u \<and> file_extension f = ''pdf'' \<and> length fpn = 1")
    case True
    with in_set have "fpn = [(p, f)]" by (cases fpn) auto
    from single [OF this r] True
    have "all_file_uploads (file_loop E u (length fpn) acc0 fpn) = []" by blast
    with True show ?thesis by simp
  next
    case False
    have no: "\<forall>(p, f) \<in> set fpn. \<not> (u \<and> file_extension f = ''pdf'' \<and> length fpn = 1)"
    proof (cases "length fpn = 1")
      case True
      with in_set have "fpn = [(p, f)]" by (cases fpn) auto
      with False show ?thesis by auto
    next
      case False
      then show ?thesis by auto
    qed
    from batch [OF no] readable_uploads_mem [OF in_set r] False show ?thesis by simp
  qed
  show ?thesis
    using mem single batch file_step_dispatch by (intro conjI) blast+
qed

text \<open>
  Enhanced mode with two PDF files, the first unreadable: the second is in the batch set and
  nothing is extracted in the loop. With one PDF file the enhanced extraction runs and the
  batch set stays empty.
\<close>

theorem dispatch_rule_witness:
  "\<lparr>content = ''abc'', name = ''b.pdf''\<rparr>
     \<in> set (all_file_uploads (file_loop half_env True 2 acc0 [(''p1'', ''a.pdf''), (''p2'', ''b.pdf'')])) \<and>
   file_loop half_env True 2 acc0 [(''p1'', ''a.pdf''), (''p2'', ''b.pdf'')] =
     acc0\<lparr>all_file_uploads := [\<lparr>content = ''abc'', name = ''b.pdf''\<rparr>]\<rparr> \<and>
   all_file_uploads (file_loop demo_env True 1 acc0 [(''p1'', ''a.pdf'')]) = [] \<and>
   processed_filenames (file_loop demo_env True 1 acc0 [(''p1'', ''a.pdf'')]) = [''a.pdf'']"
proof -
  let ?two = "[(''p1'', ''a.pdf''), (''p2'', ''b.pdf'')]"
  let ?one = "[(''p1'', ''a.pdf'')]"
  have ext: "file_extension ''a.pdf'' = ''pdf''" "file_extension ''b.pdf'' = ''pdf''"
    by (simp_all add: file_extension_def str_lower_def lower_char_def)
  have n2: "length ?two = 2" and n1: "length ?one = 1" by simp_all
  have r2: "read_file half_env ''p2'' = Inr ''abc''"
    by (simp add: half_env_def demo_env_def)
  have r1: "read_file demo_env ''p1'' = Inr ''abc''"
    by (simp add: demo_env_def)
  have ru: "readable_uploads half_env ?two = [\<lparr>content = ''abc'', name = ''b.pdf''\<rparr>]"
    by (simp add: readable_uploads_def half_env_def demo_env_def)
  have e: "enhanced_body demo_env acc0 ''abc'' ''a.pdf'' =
             Inr (acc0\<lparr>all_events_list := [[(''Event'', Some ''Arrived''),
                                             (''start'', Some ''2024-01-01T08:00:00''),
                                             (''laytime_counts'', Some ''True'')]],
                       all_summaries := [[(''port'', Text ''Rotterdam''), (''source_file'', Text ''a.pdf'')]],
                       processed_filenames := [''a.pdf'']\<rparr>)"
    by (simp add: enhanced_body_def demo_env_def demo_pipeline_def demo_frame_def frame_events_def
                  df_empty_def to_dict_records_def dict_of_def tag_summary_def acc0_def)
  note T2 = dispatch_rule [of ?two half_env True, unfolded n2]
  note T1 = dispatch_rule [of ?one demo_env True, unfolded n1]
  from T2 [THEN conjunct1] r2
  have A: "\<lparr>content = ''abc'', name = ''b.pdf''\<rparr>
     \<in> set (all_file_uploads (file_loop half_env True 2 acc0 ?two))"
    by simp
  from T2 [THEN conjunct2, THEN conjunct2, THEN conjunct1]
  have B: "file_loop half_env True 2 acc0 ?two =
             acc0\<lparr>all_file_uploads := [\<lparr>content = ''abc'', name = ''b.pdf''\<rparr>]\<rparr>"
    unfolding ru by simp
  have pre: "?one = [(''p1'', ''a.pdf'')] \<and> read_file demo_env ''p1'' = Inr ''abc'' \<and>
             True \<and> file_extension ''a.pdf'' = ''pdf''"
    using r1 ext by simp
  from T1 [THEN conjunct2, THEN conjunct1, rule_format, OF pre]
  have C: "file_loop demo_env True 1 acc0 ?one =
             (case enhanced_body demo_env acc0 ''abc'' ''a.pdf'' of Inl e \<Rightarrow> acc0 | Inr a \<Rightarrow> a)"
    and D: "all_file_uploads (file_loop demo_env True 1 acc0 ?one) = []"
    by blast+
  from C have "processed_filenames (file_loop demo_env True 1 acc0 ?one) = [''a.pdf'']"
    unfolding e by simp
  with A B D show ?thesis by blast
qed

text \<open>
  The claim as stated fails for a file that cannot be read: in a submission of two PDF
  files (so the enhanced condition is false for both) the unreadable first file is not in
  the batch set, and the enhanced path has processed nothing.
\<close>

theorem dispatch_rule_counterexample:
  "length [(''p1'', ''a.pdf''), (''p2'', ''b.pdf'')] \<noteq> 1 \<and>
   all_file_uploads (file_loop half_env True 2 acc0 [(''p1'', ''a.pdf''), (''p2'', ''b.pdf'')]) =
     [\<lparr>content = ''abc'', name = ''b.pdf''\<rparr>] \<and>
   processed_filenames (file_loop half_env True 2 acc0 [(''p1'', ''a.pdf''), (''p2'', ''b.pdf'')]) = []"
  by (simp add: file_loop_def file_step_def file_body_def half_env_def demo_env_def acc0_def)

lemma save_files_jobs: "jobs (snd (save_files E jid i fs vp s)) = jobs s"
  by (induction E jid i fs vp s rule: save_files.induct)
     (auto simp: Let_def split: option.splits)

lemma upload_documents_ok:
  assumes "\<forall>k j. jobs s k = Some j \<longrightarrow> job_ok j"
  shows "\<forall>k j. jobs (snd (upload_documents E s fs u)) k = Some j \<longrightarrow> job_ok j"
proof (cases "fs = []")
  case True
  with assms show ?thesis by (simp add: upload_documents_def)
next
  case False
  obtain r s' where sf: "save_files E (uuid4 E) 0 fs ([], []) s = (r, s')"
    by (cases "save_files E (uuid4 E) 0 fs ([], []) s")
  have js: "jobs s' = jobs s"
    using save_files_jobs [of E "uuid4 E" 0 fs "([], [])" s] sf by simp
  show ?thesis
  proof (cases r)
    case (Inl e)
    with assms False sf js show ?thesis
      by (simp add: upload_documents_def Let_def)
  next
    case (Inr vp)
    obtain v fpn where vp: "vp = (v, fpn)" by (cases vp)
    have "jobs (snd (upload_documents E s fs u)) =
            (jobs s)(uuid4 E \<mapsto> new_job E (uuid4 E) v u)"
      using False sf Inr vp js by (simp add: upload_documents_def Let_def)
    with assms show ?thesis
      by (auto simp: job_ok_def new_job_def split: if_splits)
  qed
qed

lemma upload_batch_ok:
  assumes "\<forall>k j. jobs s k = Some j \<longrightarrow> job_ok j"
  shows "\<forall>k j. jobs (snd (upload_batch_documents E s fs u label)) k = Some j \<longrightarrow> job_ok j"
proof -
  obtain r s' where ud: "upload_documents E s fs u = (r, s')"
    by (cases "upload_documents E s fs u")
  with upload_documents_ok [OF assms, of E fs u]
  have s': "\<forall>k j. jobs s' k = Some j \<longrightarrow> job_ok j" by simp
  show ?thesis
    using assms s'
    by (auto simp: upload_batch_documents_def ud Let_def job_ok_def
             split: if_splits sum.splits option.splits)
qed

lemma process_ok:
  assumes "\<forall>k j. jobs s k = Some j \<longrightarrow> job_ok j"
  shows "\<forall>k j. jobs (snd (process_documents_with_sof_pipeline E s jid fpn u)) k = Some j
           \<longrightarrow> job_ok j"
proof (cases "jobs s jid")
  case None
  then have "jobs (snd (process_documents_with_sof_pipeline E s jid fpn u)) = jobs s"
    by (simp add: process_documents_with_sof_pipeline_def orchestrate_def on_failure_def Let_def
             split: option.splits)
  with assms show ?thesis by simp
next
  case (Some j0)
  have other: "jobs (snd (process_documents_with_sof_pipeline E s jid fpn u)) k = jobs s k"
    if "k \<noteq> jid" for k
    using Some that
    by (simp add: process_documents_with_sof_pipeline_def orchestrate_cases on_failure_def Let_def
             split: option.splits)
  have j0: "job_ok j0" using assms Some by blast
  have this_one: "job_ok j"
    if "jobs (snd (process_documents_with_sof_pipeline E s jid fpn u)) jid = Some j" for j
  proof (cases "write_error E (results_path E jid)")
    case None
    with that have "j = mark_completed E (batch_step E (file_loop E u (length fpn) acc0 fpn))
                          (results_path E jid) (length fpn) j0"
      by (simp add: process_job [OF Some])
    then show ?thesis
      using processed_le_total [of E u fpn] by (simp add: job_ok_def mark_completed_def)
  next
    case (Some e)
    with that have "j = mark_failed E e j0"
      by (simp add: process_job [OF \<open>jobs s jid = Some j0\<close>])
    with j0 show ?thesis by (simp add: job_ok_def mark_failed_def split: option.splits)
  qed
  show ?thesis
  proof (intro allI impI)
    fix k j
    assume h: "jobs (snd (process_documents_with_sof_pipeline E s jid fpn u)) k = Some j"
    show "job_ok j"
    proof (cases "k = jid")
      case True
      with h this_one show ?thesis by blast
    next
      case False
      with h other [OF False] assms show ?thesis by simp
    qed
  qed
qed

lemma export_jobs: "jobs (snd (export_data E s jid evs fmt)) = jobs s"
  by (auto simp: export_data_def export_body_def Let_def
           split: option.splits sum.splits prod.splits if_splits)

lemma reachable_ok: "reachable s \<Longrightarrow> \<forall>k j. jobs s k = Some j \<longrightarrow> job_ok j"
proof (induction rule: reachable.induct)
  case start
  then show ?case by (simp add: initial_def)
next
  case (upload s E fs use_enhanced)
  from upload.IH show ?case by (rule upload_documents_ok)
next
  case (upload_single s E f use_enhanced)
  from upload_single.IH show ?case
    unfolding upload_single_document_def by (rule upload_documents_ok)
next
  case (upload_batch s E fs use_enhanced label)
  from upload_batch.IH show ?case by (rule upload_batch_ok)
next
  case (task s t E)
  obtain jid fpn u where t: "t = (jid, fpn, u)" by (cases t)
  have "\<forall>k j. jobs (s\<lparr>background_tasks := remove1 t (background_tasks s)\<rparr>) k = Some j
          \<longrightarrow> job_ok j"
    using task.IH by simp
  from process_ok [OF this, of E jid fpn u] show ?case
    by (simp add: run_task_def t)
next
  case (export s E jid request_events export_format)
  from export.IH show ?case by (simp add: export_jobs)
qed

text \<open>
  Claim C5. In every reachable state of the service, every stored job whose
  \<open>successful_files\<close> is set has \<open>successful_files \<le> total_files\<close>.
\<close>

theorem successful_le_total:
  assumes "reachable s" and "jobs s jid = Some j" and "successful_files j = Some k"
  shows "k \<le> total_files j"
  using reachable_ok [OF assms(1), rule_format, OF assms(2)] assms(3) by (simp add: job_ok_def)

lemma str_nat_small: "str_nat 0 = ''0''" "str_nat 1 = ''1''" "str_nat 2 = ''2''"
  by code_simp+

lemma str_nat_codes: "str_nat 400 = ''400''" "str_nat 500 = ''500''" "str_nat 4 = ''4''"
  by code_simp+

lemma ext_txt: "file_extension ''a.txt'' = ''txt''"
  by (simp add: file_extension_def str_lower_def lower_char_def)

lemma demo_upload_eval:
  "demo_upload =
     \<lparr>jobs = [''job1'' \<mapsto> new_job demo_env ''job1'' [''a.txt''] False],
      files = [''uploads/job1_0_a.txt'' \<mapsto> Uploaded ''hi''],
      background_tasks = [(''job1'', [(''uploads/job1_0_a.txt'', ''a.txt'')], False)]\<rparr>"
  by (simp add: demo_upload_def upload_documents_def ext_txt allowed_extensions_def
                upload_path_def path_join_def str_nat_small demo_env_def initial_def
                Let_def)

lemma demo_done_job:
  "jobs demo_done ''job1'' =
     Some (mark_completed demo_env
             (batch_step demo_env (file_loop demo_env False (length [(''uploads/job1_0_a.txt'', ''a.txt'')]) acc0
                [(''uploads/job1_0_a.txt'', ''a.txt'')]))
             (results_path demo_env ''job1'') (length [(''uploads/job1_0_a.txt'', ''a.txt'')])
             (new_job demo_env ''job1'' [''a.txt''] False))"
proof -
  have j: "jobs (demo_upload\<lparr>background_tasks := remove1 (''job1'', [(''uploads/job1_0_a.txt'', ''a.txt'')], False) (background_tasks demo_upload)\<rparr>) ''job1''
        = Some (new_job demo_env ''job1'' [''a.txt''] False)"
    by (simp add: demo_upload_eval)
  have w: "write_error demo_env (results_path demo_env ''job1'') = None"
    by (simp add: demo_env_def)
  show ?thesis
    unfolding demo_done_def run_task_def prod.case process_job [OF j] w by simp
qed

lemma demo_loop:
  "batch_step demo_env (file_loop demo_env False (length [(''uploads/job1_0_a.txt'', ''a.txt'')]) acc0
                [(''uploads/job1_0_a.txt'', ''a.txt'')]) =
   \<lparr>all_file_uploads = [\<lparr>content = ''abc'', name = ''a.txt''\<rparr>],
    all_events_list = [[(''Event'', Some ''Arrived''), (''start'', Some ''2024-01-01T08:00:00''),
                        (''laytime_counts'', Some ''True'')]],
    all_summaries = [[(''port'', Text ''Rotterdam''), (''source_file'', Text ''batch_processed'')]],
    processed_filenames = [''a.txt'']\<rparr>"
  by (simp add: file_loop_def file_step_def file_body_def ext_txt batch_step_def batch_body_def
                demo_env_def demo_pipeline_def demo_frame_def frame_events_def df_empty_def
                to_dict_records_def dict_of_def tag_summary_def acc0_def)

text \<open>One upload of one file, then its background task: the job is COMPLETED with 1 of 1.\<close>

theorem successful_le_total_witness:
  "reachable demo_done \<and>
   map_option status (jobs demo_done ''job1'') = Some COMPLETED \<and>
   map_option successful_files (jobs demo_done ''job1'') = Some (Some 1) \<and>
   1 \<le> total_files (the (jobs demo_done ''job1''))"
proof -
  have r1: "reachable demo_upload"
    unfolding demo_upload_def by (intro reachable.upload reachable.start)
  have t: "(''job1'', [(''uploads/job1_0_a.txt'', ''a.txt'')], False) \<in> set (background_tasks demo_upload)"
    by (simp add: demo_upload_eval)
  have r2: "reachable demo_done"
    unfolding demo_done_def by (rule reachable.task [OF r1 t])
  have j: "jobs demo_done ''job1'' = Some (the (jobs demo_done ''job1''))"
    by (simp add: demo_done_job)
  have s: "successful_files (the (jobs demo_done ''job1'')) = Some 1"
    unfolding demo_done_job demo_loop by (simp add: mark_completed_def)
  have c: "map_option status (jobs demo_done ''job1'') = Some COMPLETED"
    unfolding demo_done_job by (simp add: mark_completed_def)
  from successful_le_total [OF r2 j s] r2 s c j show ?thesis
    by (metis option.simps(9))
qed

section \<open>Properties of the upload dispatcher\<close>

lemma ext_pdf: "file_extension ''a.pdf'' = ''pdf''"
  by (simp add: file_extension_def str_lower_def lower_char_def)

lemma ext_exe: "file_extension ''b.exe'' = ''exe''"
  by (simp add: file_extension_def str_lower_def lower_char_def)

text \<open>
  Claim C3, the code at a failing input. A valid file followed by a file with a disallowed
  extension: the submission is rejected with a 400 that names the second file, no job is
  created and no task is scheduled, but the bytes of the first file have been written.
\<close>

theorem rejected_upload_persists:
  "upload_documents demo_env initial [demo_file, bad_file] False =
     (Inl (unsupported_type ''.exe'' ''b.exe''),
      initial\<lparr>files := [''uploads/job1_0_a.pdf'' \<mapsto> Uploaded ''ab'']\<rparr>) \<and>
   status_code (unsupported_type ''.exe'' ''b.exe'') = 400 \<and>
   files initial ''uploads/job1_0_a.pdf'' = None"
  by (simp add: upload_documents_def demo_file_def bad_file_def ext_pdf ext_exe
                allowed_extensions_def upload_path_def path_join_def str_nat_small
                demo_env_def initial_def unsupported_type_def Let_def)

lemma save_files_tasks: "background_tasks (snd (save_files E jid i fs vp s)) = background_tasks s"
  by (induction E jid i fs vp s rule: save_files.induct)
     (auto simp: Let_def split: option.splits)

lemma upload_handler_idem: "upload_handler (upload_handler e) = upload_handler e"
  by (cases e) simp_all

lemma upload_documents_error:
  "upload_documents E s fs u = (Inl e, s') \<Longrightarrow> upload_handler e = e"
  by (auto simp: upload_documents_def Let_def upload_handler_idem
           split: if_splits prod.splits sum.splits)

lemma upload_documents_job:
  "upload_documents E s fs u = (Inr r, s') \<Longrightarrow> jobs s' (response_job_id r) \<noteq> None"
  by (auto simp: upload_documents_def Let_def split: if_splits prod.splits sum.splits)

text \<open>
  Claim C9. The single-file entry point is the multi-file one on the one-element list. The
  batch entry point rejects more than 10 files without touching the state; otherwise it
  returns the error of the multi-file entry point unchanged, or its response with the batch
  metadata added, in the state the multi-file entry point leaves (same files, same
  scheduled task) where the created job carries the batch label if one was given.
\<close>

theorem upload_entry_points:
  "upload_single_document E s f u = upload_documents E s [f] u \<and>
   (length fs > 10 \<longrightarrow>
      upload_batch_documents E s fs u label =
        (Inl (HTTPException 400 ''Maximum 10 files per batch''), s)) \<and>
   (length fs \<le> 10 \<longrightarrow>
      (case upload_documents E s fs u of
         (Inl e, s') \<Rightarrow> upload_batch_documents E s fs u label = (Inl e, s')
       | (Inr r, s') \<Rightarrow>
           jobs s' (response_job_id r) \<noteq> None \<and>
           upload_batch_documents E s fs u label =
             (Inr (BatchResponse r label (length fs)),
              s'\<lparr>jobs := (jobs s')(response_job_id r :=
                     map_option (relabel label) (jobs s' (response_job_id r)))\<rparr>)))"
proof (intro conjI impI)
  show "upload_single_document E s f u = upload_documents E s [f] u"
    by (simp add: upload_single_document_def)
next
  assume "length fs > 10"
  then show "upload_batch_documents E s fs u label =
        (Inl (HTTPException 400 ''Maximum 10 files per batch''), s)"
    by (auto simp: upload_batch_documents_def)
next
  assume le: "length fs \<le> 10"
  obtain r s' where ud: "upload_documents E s fs u = (r, s')"
    by (cases "upload_documents E s fs u")
  show "case upload_documents E s fs u of
         (Inl e, s') \<Rightarrow> upload_batch_documents E s fs u label = (Inl e, s')
       | (Inr r, s') \<Rightarrow>
           jobs s' (response_job_id r) \<noteq> None \<and>
           upload_batch_documents E s fs u label =
             (Inr (BatchResponse r label (length fs)),
              s'\<lparr>jobs := (jobs s')(response_job_id r :=
                     map_option (relabel label) (jobs s' (response_job_id r)))\<rparr>)"
  proof (cases r)
    case (Inl e)
    have h: "upload_handler e = e"
      using ud Inl by (auto dest: upload_documents_error)
    show ?thesis
    proof (cases "fs = []")
      case True
      then show ?thesis by (simp add: upload_documents_def upload_batch_documents_def)
    next
      case False
      with le ud Inl h show ?thesis
        by (simp add: upload_batch_documents_def)
    qed
  next
    case (Inr res)
    with ud have ne: "fs \<noteq> []"
      by (auto simp: upload_documents_def)
    from ud Inr obtain j where j: "jobs s' (response_job_id res) = Some j"
      using upload_documents_job [of E s fs u res s'] by auto
    have same: "s'\<lparr>jobs := (jobs s')(response_job_id res \<mapsto> j)\<rparr> = s'"
      using j by (simp add: fun_upd_idem)
    show ?thesis
      using le ne ud Inr j same
      by (simp add: upload_batch_documents_def relabel_def Let_def)
  qed
qed

lemma str_nat_Suc0: "str_nat (Suc 0) = ''1''"
  using str_nat_small(2) by simp

lemma demo_file_upload:
  "upload_documents demo_env initial [demo_file] False =
     (Inr (UploadResponse ''1 file(s) uploaded successfully'' ''job1'' [''a.pdf''] 1 False),
      \<lparr>jobs = [''job1'' \<mapsto> new_job demo_env ''job1'' [''a.pdf''] False],
       files = [''uploads/job1_0_a.pdf'' \<mapsto> Uploaded ''ab''],
       background_tasks = [(''job1'', [(''uploads/job1_0_a.pdf'', ''a.pdf'')], False)]\<rparr>)"
  by (simp add: upload_documents_def demo_file_def ext_pdf allowed_extensions_def upload_path_def
                path_join_def str_nat_small str_nat_Suc0 demo_env_def initial_def Let_def)

text \<open>Eleven files are rejected; one file with a label gives the same upload, labelled.\<close>

theorem upload_entry_points_witness:
  "upload_batch_documents demo_env initial (replicate 11 demo_file) False (Some ''lot 7'') =
     (Inl (HTTPException 400 ''Maximum 10 files per batch''), initial) \<and>
   fst (upload_batch_documents demo_env initial [demo_file] False (Some ''lot 7'')) =
     Inr (BatchResponse
            (UploadResponse ''1 file(s) uploaded successfully'' ''job1'' [''a.pdf''] 1 False)
            (Some ''lot 7'') 1) \<and>
   jobs (snd (upload_batch_documents demo_env initial [demo_file] False (Some ''lot 7''))) ''job1'' =
     Some ((new_job demo_env ''job1'' [''a.pdf''] False)\<lparr>batch_name := Some ''lot 7''\<rparr>) \<and>
   background_tasks (snd (upload_batch_documents demo_env initial [demo_file] False (Some ''lot 7''))) =
     background_tasks (snd (upload_documents demo_env initial [demo_file] False)) \<and>
   files (snd (upload_batch_documents demo_env initial [demo_file] False (Some ''lot 7''))) =
     files (snd (upload_single_document demo_env initial demo_file False))"
proof -
  have big: "length (replicate 11 demo_file) > 10" by simp
  have small: "length [demo_file] \<le> 10" by simp
  note T11 = upload_entry_points [of demo_env initial demo_file False "replicate 11 demo_file" "Some ''lot 7''"]
  note T1 = upload_entry_points [of demo_env initial demo_file False "[demo_file]" "Some ''lot 7''"]
  from T11 big have A:
    "upload_batch_documents demo_env initial (replicate 11 demo_file) False (Some ''lot 7'') =
       (Inl (HTTPException 400 ''Maximum 10 files per batch''), initial)"
    by blast
  from T1 have S: "upload_single_document demo_env initial demo_file False =
                     upload_documents demo_env initial [demo_file] False"
    by blast
  from T1 small have B:
    "upload_batch_documents demo_env initial [demo_file] False (Some ''lot 7'') =
       (Inr (BatchResponse
               (UploadResponse ''1 file(s) uploaded successfully'' ''job1'' [''a.pdf''] 1 False)
               (Some ''lot 7'') 1),
        \<lparr>jobs = [''job1'' \<mapsto> (new_job demo_env ''job1'' [''a.pdf''] False)\<lparr>batch_name := Some ''lot 7''\<rparr>],
         files = [''uploads/job1_0_a.pdf'' \<mapsto> Uploaded ''ab''],
         background_tasks = [(''job1'', [(''uploads/job1_0_a.pdf'', ''a.pdf'')], False)]\<rparr>)"
    unfolding demo_file_upload by (simp add: relabel_def has_label_def)
  show ?thesis
    unfolding A B S demo_file_upload by simp
qed

section \<open>Properties of the export transformer\<close>

lemma columns_drop_if_present:
  "columns (drop_if_present df c) = filter (\<lambda>x. x \<noteq> c) (columns df)"
proof (cases "c \<in> set (columns df)")
  case True
  then show ?thesis by (simp add: drop_if_present_def drop_column_def)
next
  case False
  then have "filter (\<lambda>x. x \<noteq> c) (columns df) = columns df"
    by (intro filter_True) auto
  with False show ?thesis by (simp add: drop_if_present_def)
qed

lemma columns_drop_all:
  "columns (foldl drop_if_present df cs) = filter (\<lambda>x. x \<notin> set cs) (columns df)"
proof (induction cs arbitrary: df)
  case Nil
  then show ?case by simp
next
  case (Cons c cs)
  have "columns (foldl drop_if_present (drop_if_present df c) cs) =
          filter (\<lambda>x. x \<notin> set cs) (columns (drop_if_present df c))"
    by (rule Cons.IH)
  then show ?case
    by (simp add: columns_drop_if_present conj_commute)
qed

lemma kept_columns:
  "columns (foldl drop_if_present (drop_if_present df ''laytime_counts'') columns_to_remove) =
     filter (\<lambda>x. x \<notin> set removed_columns) (columns df)"
  by (simp add: columns_drop_all columns_drop_if_present removed_columns_def conj_commute)

lemma preferred_not_removed: "c \<in> set preferred_columns \<Longrightarrow> c \<notin> set removed_columns"
  by (auto simp: preferred_columns_def removed_columns_def columns_to_remove_def)

lemma distinct_preferred: "distinct preferred_columns"
  by (simp add: preferred_columns_def)

lemma final_columns_kept:
  "final_columns (foldl drop_if_present (drop_if_present df ''laytime_counts'') columns_to_remove) =
     filter (\<lambda>c. c \<in> set (columns df)) preferred_columns"
  unfolding final_columns_def kept_columns
  by (rule filter_cong) (auto dest: preferred_not_removed)

lemma columns_normalize:
  "columns (normalize_columns df) =
     concat (map (\<lambda>c. filter (\<lambda>k. k = c) (filter (\<lambda>x. x \<notin> set removed_columns) (columns df)))
               (filter (\<lambda>c. c \<in> set (columns df)) preferred_columns))"
  by (simp add: normalize_columns_def Let_def select_columns_def final_columns_kept kept_columns)

lemma remdups_block:
  assumes "c \<in> set xs" and "c \<notin> set rest"
  shows "remdups (filter (\<lambda>k. k = c) xs @ rest) = c # remdups rest"
  using assms(1)
proof (induction xs)
  case Nil
  then show ?case by simp
next
  case (Cons x xs)
  show ?case
  proof (cases "c \<in> set xs")
    case True
    with Cons.IH show ?thesis by auto
  next
    case False
    with Cons.prems have "x = c" by simp
    moreover from False have "filter (\<lambda>k. k = c) xs = []"
      by (auto simp: filter_empty_conv)
    ultimately show ?thesis using assms(2) by simp
  qed
qed

lemma remdups_blocks:
  assumes "distinct cs" and "set cs \<subseteq> set xs"
  shows "remdups (concat (map (\<lambda>c. filter (\<lambda>k. k = c) xs) cs)) = cs"
  using assms
proof (induction cs)
  case Nil
  then show ?case by simp
next
  case (Cons c cs)
  have "c \<notin> set (concat (map (\<lambda>c. filter (\<lambda>k. k = c) xs) cs))"
    using Cons.prems(1) by auto
  with Cons show ?case
    by (simp add: remdups_block)
qed

lemma blocks_distinct:
  assumes "distinct xs"
  shows "concat (map (\<lambda>c. filter (\<lambda>k. k = c) xs) cs) = filter (\<lambda>c. c \<in> set xs) cs"
proof (induction cs)
  case Nil
  then show ?case by simp
next
  case (Cons c cs)
  have "filter (\<lambda>k. k = c) xs = (if c \<in> set xs then [c] else [])"
    using assms by (induction xs) auto
  with Cons show ?case by simp
qed

lemma export_table_columns:
  fixes df :: dataframe
  defines "T \<equiv> normalize_columns df"
  shows "set (columns T) \<inter> set removed_columns = {}"
    and "remdups (columns T) = filter (\<lambda>c. c \<in> set (columns df)) preferred_columns"
    and "distinct (columns df) \<Longrightarrow> columns T = filter (\<lambda>c. c \<in> set (columns df)) preferred_columns"
proof -
  let ?kept = "filter (\<lambda>x. x \<notin> set removed_columns) (columns df)"
  let ?final = "filter (\<lambda>c. c \<in> set (columns df)) preferred_columns"
  have c: "columns T = concat (map (\<lambda>c. filter (\<lambda>k. k = c) ?kept) ?final)"
    unfolding T_def by (rule columns_normalize)
  show "set (columns T) \<inter> set removed_columns = {}"
    unfolding c by auto
  have sub: "set ?final \<subseteq> set ?kept"
    by (auto dest: preferred_not_removed)
  show "remdups (columns T) = ?final"
    unfolding c using distinct_preferred sub by (intro remdups_blocks) simp_all
  assume d: "distinct (columns df)"
  then have "distinct ?kept" by simp
  from blocks_distinct [OF this, of ?final]
  have "columns T = filter (\<lambda>c. c \<in> set ?kept) ?final"
    unfolding c .
  also have "\<dots> = ?final"
    using sub by (intro filter_True) auto
  finally show "columns T = ?final" .
qed

lemma ordered_keys_distinct: "distinct (ordered_keys ks)"
proof -
  have "distinct (foldl (\<lambda>seen k. if k \<in> set seen then seen else seen @ [k]) acc ks)"
    if "distinct acc" for acc :: "'a list"
    using that by (induction ks arbitrary: acc) auto
  then show ?thesis by (simp add: ordered_keys_def)
qed

lemma DataFrame_distinct: "distinct (columns (DataFrame evs))"
  by (simp add: DataFrame_def Let_def ordered_keys_distinct)

lemma clean_items_keys: "clean_items kvs = Inr r \<Longrightarrow> map fst r = map fst kvs"
  by (induction kvs arbitrary: r) (auto split: sum.splits)

lemma dict_of_keys: "fst ` set (dict_of kvs) = fst ` set kvs"
proof -
  have "fst ` set (foldl (\<lambda>d (k, v). AList.update k v d) acc kvs) = fst ` set acc \<union> fst ` set kvs"
    for acc :: "('a \<times> 'b) list"
  proof (induction kvs arbitrary: acc)
    case Nil
    then show ?case by simp
  next
    case (Cons kv kvs)
    obtain k v where kv: "kv = (k, v)" by (cases kv)
    have "fst ` set (foldl (\<lambda>d (k, v). AList.update k v d) (AList.update k v acc) kvs) =
            fst ` set (AList.update k v acc) \<union> fst ` set kvs"
      by (rule Cons.IH)
    then show ?case
      unfolding kv by (simp add: AList.dom_update Un_assoc insert_commute)
  qed
  from this [of "[]"] show ?thesis by (simp add: dict_of_def)
qed

lemma clean_rows_keys:
  "clean_rows cols rs = Inr js \<Longrightarrow> ev \<in> set js \<Longrightarrow> fst ` set ev \<subseteq> set cols"
proof (induction rs arbitrary: js)
  case Nil
  then show ?case by simp
next
  case (Cons r rs)
  from Cons.prems(1) obtain ce js' where ce: "clean_items (zip cols r) = Inr ce"
    and js': "clean_rows cols rs = Inr js'" and js: "js = dict_of ce # js'"
    by (auto split: sum.splits)
  have "fst ` set (dict_of ce) \<subseteq> set cols"
    using clean_items_keys [OF ce] dict_of_keys [of ce]
    by (metis image_set map_fst_zip_take set_take_subset)
  with Cons.IH [OF js'] Cons.prems(2) js show ?case by auto
qed

lemma export_body_success:
  assumes "export_body E s jid summ evs fmt = (Inr (FileResponse path media fname), s')"
  shows "files s' path = Some (CsvExport (export_table E summ evs)) \<or>
         (\<exists>js. clean_rows (columns (export_table E summ evs)) (rows (export_table E summ evs)) = Inr js \<and>
               files s' path = Some (JsonExport js))"
  using assms
  by (auto simp: export_body_def Let_def split: if_splits option.splits sum.splits)

lemma export_data_success:
  assumes "export_data E s jid request_events fmt = (Inr r, s')"
  shows "\<exists>j evs. jobs s jid = Some j \<and> status j = COMPLETED \<and>
                 export_events j request_events = Inr evs \<and> evs \<noteq> [] \<and>
                 export_body E s jid (job_summary j) evs fmt = (Inr r, s')"
  using assms
  by (auto simp: export_data_def split: option.splits if_splits sum.splits prod.splits)

text \<open>
  Claim C6. For every successful export, the exported table (written as CSV, or cleaned
  row by row into the JSON objects, whose keys are among its columns) has no column of the
  denylist and no \<open>laytime_counts\<close> column, and its columns are the canonical columns
  present in the possibly laytime-augmented table, in canonical order, all others dropped.
  (A pandas table may repeat a label; the order is stated up to such repetitions, and
  exactly when the labels of the augmented table are distinct.)
\<close>

theorem export_columns:
  assumes "export_data E s jid request_events fmt = (Inr (FileResponse path media fname), s')"
  shows "\<exists>j evs. jobs s jid = Some j \<and> export_events j request_events = Inr evs \<and>
           (let A = with_laytime E (job_summary j) (DataFrame evs);
                T = export_table E (job_summary j) evs
            in (files s' path = Some (CsvExport T) \<or>
                (\<exists>js. files s' path = Some (JsonExport js) \<and>
                      clean_rows (columns T) (rows T) = Inr js \<and>
                      (\<forall>ev \<in> set js. fst ` set ev \<subseteq> set (columns T)))) \<and>
               set (columns T) \<inter> set removed_columns = {} \<and>
               remdups (columns T) = filter (\<lambda>c. c \<in> set (columns A)) preferred_columns \<and>
               (distinct (columns A) \<longrightarrow>
                  columns T = filter (\<lambda>c. c \<in> set (columns A)) preferred_columns))"
proof -
  from export_data_success [OF assms] obtain j evs where
    j: "jobs s jid = Some j" and ev: "export_events j request_events = Inr evs"
    and b: "export_body E s jid (job_summary j) evs fmt = (Inr (FileResponse path media fname), s')"
    by blast
  let ?A = "with_laytime E (job_summary j) (DataFrame evs)"
  let ?T = "export_table E (job_summary j) evs"
  have T: "?T = normalize_columns ?A" by (simp add: export_table_def)
  have art: "files s' path = Some (CsvExport ?T) \<or>
                (\<exists>js. files s' path = Some (JsonExport js) \<and>
                      clean_rows (columns ?T) (rows ?T) = Inr js \<and>
                      (\<forall>ev \<in> set js. fst ` set ev \<subseteq> set (columns ?T)))"
    using export_body_success [OF b] clean_rows_keys by blast
  have c1: "set (columns ?T) \<inter> set removed_columns = {}"
    unfolding T by (rule export_table_columns(1))
  have c2: "remdups (columns ?T) = filter (\<lambda>c. c \<in> set (columns ?A)) preferred_columns"
    unfolding T by (rule export_table_columns(2))
  have c3: "distinct (columns ?A) \<longrightarrow>
              columns ?T = filter (\<lambda>c. c \<in> set (columns ?A)) preferred_columns"
    unfolding T using export_table_columns(3) [of ?A] by blast
  show ?thesis
    using j ev art c1 c2 c3
    by (intro exI [of _ j] exI [of _ evs]) (simp add: Let_def)
qed

lemma demo_done_status: "map_option status (jobs demo_done ''job1'') = Some COMPLETED"
  unfolding demo_done_job by (simp add: mark_completed_def)

lemma demo_done_events:
  "map_option events (jobs demo_done ''job1'') =
     Some (Some [[(''Event'', Some ''Arrived''), (''start'', Some ''2024-01-01T08:00:00''),
                  (''laytime_counts'', Some ''True'')]])"
  unfolding demo_done_job demo_loop by (simp add: mark_completed_def)

lemma demo_done_summary:
  "map_option job_summary (jobs demo_done ''job1'') = Some [(''port'', Text ''Rotterdam'')]"
  unfolding demo_done_job demo_loop by (simp add: mark_completed_def job_summary_def)

lemma demo_table:
  "export_table demo_env [(''port'', Text ''Rotterdam'')]
     (stored_events [[(''Event'', Some ''Arrived''), (''start'', Some ''2024-01-01T08:00:00''),
                      (''laytime_counts'', Some ''True'')]]) =
   \<lparr>columns = [''Event'', ''Laytime''], rows = [[Text ''Arrived'', Opaque ''0.5'']]\<rparr>"
  by code_simp

lemma demo_export_csv:
  "fst (export_data demo_env demo_done ''job1'' [] ''CSV'') =
     Inr (FileResponse ''results/job1_export.csv'' ''text/csv'' ''sof_events_job1.csv'')"
  by code_simp

text \<open>
  The completed demo job, exported as CSV: of Event, start, laytime_counts and the added
  Laytime column, the table keeps Event and Laytime.
\<close>

theorem export_columns_witness:
  "export_data demo_env demo_done ''job1'' [] ''CSV'' =
     (Inr (FileResponse ''results/job1_export.csv'' ''text/csv'' ''sof_events_job1.csv''),
      snd (export_data demo_env demo_done ''job1'' [] ''CSV'')) \<and>
   files (snd (export_data demo_env demo_done ''job1'' [] ''CSV'')) ''results/job1_export.csv'' =
     Some (CsvExport \<lparr>columns = [''Event'', ''Laytime''], rows = [[Text ''Arrived'', Opaque ''0.5'']]\<rparr>) \<and>
   set [''Event'', ''Laytime''] \<inter> set removed_columns = {}"
proof -
  let ?evs = "[[(''Event'', Some ''Arrived''), (''start'', Some ''2024-01-01T08:00:00''),
                (''laytime_counts'', Some ''True'')]]"
  have h: "export_data demo_env demo_done ''job1'' [] ''CSV'' =
     (Inr (FileResponse ''results/job1_export.csv'' ''text/csv'' ''sof_events_job1.csv''),
      snd (export_data demo_env demo_done ''job1'' [] ''CSV''))"
    using demo_export_csv by (simp add: prod_eq_iff)
  from export_columns [OF h] obtain j evs where
    j: "jobs demo_done ''job1'' = Some j" and ev: "export_events j [] = Inr evs"
    and art: "files (snd (export_data demo_env demo_done ''job1'' [] ''CSV'')) ''results/job1_export.csv''
                = Some (CsvExport (export_table demo_env (job_summary j) evs)) \<or>
              (\<exists>js. files (snd (export_data demo_env demo_done ''job1'' [] ''CSV''))
                        ''results/job1_export.csv'' = Some (JsonExport js))"
    and c1: "set (columns (export_table demo_env (job_summary j) evs)) \<inter> set removed_columns = {}"
    by (auto simp: Let_def)
  from j demo_done_summary have summ: "job_summary j = [(''port'', Text ''Rotterdam'')]"
    by simp
  from j demo_done_events have "events j = Some ?evs" by simp
  with ev have evs: "evs = stored_events ?evs"
    by (simp add: export_events_def)
  have f: "files (snd (export_data demo_env demo_done ''job1'' [] ''CSV'')) ''results/job1_export.csv'' =
     Some (CsvExport \<lparr>columns = [''Event'', ''Laytime''], rows = [[Text ''Arrived'', Opaque ''0.5'']]\<rparr>)"
    by code_simp
  from c1 have "set [''Event'', ''Laytime''] \<inter> set removed_columns = {}"
    unfolding summ evs demo_table by simp
  with h f show ?thesis by blast
qed

lemma export_body_frame:
  assumes "files s2 = files s"
  shows "fst (export_body E s2 jid summ evs fmt) = fst (export_body E s jid summ evs fmt) \<and>
         files (snd (export_body E s2 jid summ evs fmt)) = files (snd (export_body E s jid summ evs fmt))"
  using assms
  by (auto simp: export_body_def Let_def split: option.splits sum.splits)

lemma export_data_chosen:
  assumes "jobs s jid = Some j" and "status j = COMPLETED"
    and "export_events j request_events = Inr evs" and "evs \<noteq> []"
  shows "export_data E s jid request_events fmt =
           (case export_body E s jid (job_summary j) evs fmt of
              (Inl e, s') \<Rightarrow> (Inl (export_handler e), s')
            | (Inr r, s') \<Rightarrow> (Inr r, s'))"
  using assms by (simp add: export_data_def)

lemma export_body_csv:
  assumes "str_lower fmt = ''csv''"
    and "write_error E (path_join (RESULTS_DIR E) (jid @ ''_export.csv'')) = None"
  shows "export_body E s jid summ evs fmt =
           (Inr (FileResponse (path_join (RESULTS_DIR E) (jid @ ''_export.csv'')) ''text/csv''
                   (''sof_events_'' @ take 8 jid @ ''.csv'')),
            s\<lparr>files := (files s)(path_join (RESULTS_DIR E) (jid @ ''_export.csv'') \<mapsto>
                           CsvExport (export_table E summ evs))\<rparr>)"
  using assms by (simp add: export_body_def Let_def)

lemma export_body_json:
  assumes "str_lower fmt = ''json''"
    and "clean_rows (columns (export_table E summ evs)) (rows (export_table E summ evs)) = Inr js"
    and "write_error E (path_join (RESULTS_DIR E) (jid @ ''_export.json'')) = None"
  shows "export_body E s jid summ evs fmt =
           (Inr (FileResponse (path_join (RESULTS_DIR E) (jid @ ''_export.json'')) ''application/json''
                   (''sof_events_'' @ take 8 jid @ ''.json'')),
            s\<lparr>files := (files s)(path_join (RESULTS_DIR E) (jid @ ''_export.json'') \<mapsto>
                           JsonExport js)\<rparr>)"
  using assms by (simp add: export_body_def Let_def)

lemma export_of_list:
  assumes "jobs s jid = Some j" and "status j = COMPLETED"
    and "export_events j request_events = Inr evs" and "evs \<noteq> []"
  shows "export_data E s jid request_events fmt =
           (case export_body E s jid (job_summary j) evs fmt of
              (Inl e, s') \<Rightarrow> (Inl (export_handler e), s')
            | (Inr r, s') \<Rightarrow> (Inr r, s')) \<and>
         (str_lower fmt = ''csv'' \<and> write_error E (csv_file E jid) = None \<longrightarrow>
            export_data E s jid request_events fmt =
              (Inr (FileResponse (csv_file E jid) ''text/csv'' (''sof_events_'' @ take 8 jid @ ''.csv'')),
               s\<lparr>files := (files s)(csv_file E jid \<mapsto>
                              CsvExport (export_table E (job_summary j) evs))\<rparr>)) \<and>
         (\<forall>js. str_lower fmt = ''json'' \<and>
               clean_rows (columns (export_table E (job_summary j) evs))
                          (rows (export_table E (job_summary j) evs)) = Inr js \<and>
               write_error E (json_file E jid) = None \<longrightarrow>
            export_data E s jid request_events fmt =
              (Inr (FileResponse (json_file E jid) ''application/json''
                      (''sof_events_'' @ take 8 jid @ ''.json'')),
               s\<lparr>files := (files s)(json_file E jid \<mapsto> JsonExport js)\<rparr>))"
proof (intro conjI impI allI)
  show c: "export_data E s jid request_events fmt =
           (case export_body E s jid (job_summary j) evs fmt of
              (Inl e, s') \<Rightarrow> (Inl (export_handler e), s')
            | (Inr r, s') \<Rightarrow> (Inr r, s'))"
    by (rule export_data_chosen [OF assms])
  show "export_data E s jid request_events fmt =
              (Inr (FileResponse (csv_file E jid) ''text/csv'' (''sof_events_'' @ take 8 jid @ ''.csv'')),
               s\<lparr>files := (files s)(csv_file E jid \<mapsto>
                              CsvExport (export_table E (job_summary j) evs))\<rparr>)"
    if "str_lower fmt = ''csv'' \<and> write_error E (csv_file E jid) = None"
    using that unfolding c csv_file_def by (simp add: export_body_csv)
  show "export_data E s jid request_events fmt =
              (Inr (FileResponse (json_file E jid) ''application/json''
                      (''sof_events_'' @ take 8 jid @ ''.json'')),
               s\<lparr>files := (files s)(json_file E jid \<mapsto> JsonExport js)\<rparr>)"
    if "str_lower fmt = ''json'' \<and>
               clean_rows (columns (export_table E (job_summary j) evs))
                          (rows (export_table E (job_summary j) evs)) = Inr js \<and>
               write_error E (json_file E jid) = None" for js
    using that unfolding c json_file_def by (simp add: export_body_json)
qed

text \<open>
  Claim C7. For a COMPLETED job the export is computed from the chosen list. With a
  non-empty override list, \<open>export_data\<close> is the body run on that list: for the format csv
  (the file being writable) it succeeds and writes the table built from the override list,
  for json it writes the cleaned rows of that table; and the response and the files written
  do not depend on the events stored in the job. With an empty override list and non-empty
  stored events the same holds with the stored events as the list. In all cases the export
  leaves the job store as it was.
\<close>

theorem export_event_source:
  assumes "jobs s jid = Some j" and "status j = COMPLETED"
  shows "(request_events \<noteq> [] \<longrightarrow>
            export_data E s jid request_events fmt =
              (case export_body E s jid (job_summary j) request_events fmt of
                 (Inl e, s') \<Rightarrow> (Inl (export_handler e), s')
               | (Inr r, s') \<Rightarrow> (Inr r, s')) \<and>
            (str_lower fmt = ''csv'' \<and> write_error E (csv_file E jid) = None \<longrightarrow>
               export_data E s jid request_events fmt =
                 (Inr (FileResponse (csv_file E jid) ''text/csv''
                         (''sof_events_'' @ take 8 jid @ ''.csv'')),
                  s\<lparr>files := (files s)(csv_file E jid \<mapsto>
                                 CsvExport (export_table E (job_summary j) request_events))\<rparr>)) \<and>
            (\<forall>js. str_lower fmt = ''json'' \<and>
                  clean_rows (columns (export_table E (job_summary j) request_events))
                             (rows (export_table E (job_summary j) request_events)) = Inr js \<and>
                  write_error E (json_file E jid) = None \<longrightarrow>
               export_data E s jid request_events fmt =
                 (Inr (FileResponse (json_file E jid) ''application/json''
                         (''sof_events_'' @ take 8 jid @ ''.json'')),
                  s\<lparr>files := (files s)(json_file E jid \<mapsto> JsonExport js)\<rparr>)) \<and>
            (\<forall>x. fst (export_data E (s\<lparr>jobs := (jobs s)(jid \<mapsto> j\<lparr>events := x\<rparr>)\<rparr>) jid request_events fmt)
                   = fst (export_data E s jid request_events fmt) \<and>
                 files (snd (export_data E (s\<lparr>jobs := (jobs s)(jid \<mapsto> j\<lparr>events := x\<rparr>)\<rparr>) jid
                               request_events fmt))
                   = files (snd (export_data E s jid request_events fmt)))) \<and>
         (\<forall>evs. events j = Some evs \<longrightarrow>
            export_data E s jid [] fmt = export_data E s jid (stored_events evs) fmt \<and>
            (evs \<noteq> [] \<longrightarrow>
               export_data E s jid [] fmt =
                 (case export_body E s jid (job_summary j) (stored_events evs) fmt of
                    (Inl e, s') \<Rightarrow> (Inl (export_handler e), s')
                  | (Inr r, s') \<Rightarrow> (Inr r, s')) \<and>
               (str_lower fmt = ''csv'' \<and> write_error E (csv_file E jid) = None \<longrightarrow>
                  export_data E s jid [] fmt =
                    (Inr (FileResponse (csv_file E jid) ''text/csv''
                            (''sof_events_'' @ take 8 jid @ ''.csv'')),
                     s\<lparr>files := (files s)(csv_file E jid \<mapsto>
                                    CsvExport (export_table E (job_summary j) (stored_events evs)))\<rparr>)) \<and>
               (\<forall>js. str_lower fmt = ''json'' \<and>
                     clean_rows (columns (export_table E (job_summary j) (stored_events evs)))
                                (rows (export_table E (job_summary j) (stored_events evs))) = Inr js \<and>
                     write_error E (json_file E jid) = None \<longrightarrow>
                  export_data E s jid [] fmt =
                    (Inr (FileResponse (json_file E jid) ''application/json''
                            (''sof_events_'' @ take 8 jid @ ''.json'')),
                     s\<lparr>files := (files s)(json_file E jid \<mapsto> JsonExport js)\<rparr>)))) \<and>
         jobs (snd (export_data E s jid request_events fmt)) = jobs s"
proof -
  have over: "export_events j request_events = Inr request_events" if "request_events \<noteq> []"
    using that by (simp add: export_events_def)
  have stored: "export_events j [] = Inr (stored_events evs)" if "events j = Some evs" for evs
    using that by (simp add: export_events_def)
  have ne: "stored_events evs \<noteq> []" if "evs \<noteq> []" for evs
    using that by (simp add: stored_events_def)
  have indep: "fst (export_data E (s\<lparr>jobs := (jobs s)(jid \<mapsto> j\<lparr>events := x\<rparr>)\<rparr>) jid request_events fmt)
                   = fst (export_data E s jid request_events fmt) \<and>
                 files (snd (export_data E (s\<lparr>jobs := (jobs s)(jid \<mapsto> j\<lparr>events := x\<rparr>)\<rparr>) jid
                               request_events fmt))
                   = files (snd (export_data E s jid request_events fmt))"
    if r: "request_events \<noteq> []" for x
  proof -
    let ?s2 = "s\<lparr>jobs := (jobs s)(jid \<mapsto> j\<lparr>events := x\<rparr>)\<rparr>"
    have fr: "files ?s2 = files s" by simp
    have summ: "job_summary (j\<lparr>events := x\<rparr>) = job_summary j"
      by (simp add: job_summary_def)
    note b = export_body_frame [OF fr, of E jid "job_summary j" request_events fmt]
    show ?thesis
      using assms r b
      by (auto simp: export_data_def export_events_def summ split: prod.splits sum.splits)
  qed
  have same: "export_data E s jid [] fmt = export_data E s jid (stored_events evs) fmt"
    if "events j = Some evs" for evs
    using that assms by (simp add: export_data_def export_events_def)
  show ?thesis
  proof (intro conjI)
    show "request_events \<noteq> [] \<longrightarrow>
            export_data E s jid request_events fmt =
              (case export_body E s jid (job_summary j) request_events fmt of
                 (Inl e, s') \<Rightarrow> (Inl (export_handler e), s')
               | (Inr r, s') \<Rightarrow> (Inr r, s')) \<and>
            (str_lower fmt = ''csv'' \<and> write_error E (csv_file E jid) = None \<longrightarrow>
               export_data E s jid request_events fmt =
                 (Inr (FileResponse (csv_file E jid) ''text/csv''
                         (''sof_events_'' @ take 8 jid @ ''.csv'')),
                  s\<lparr>files := (files s)(csv_file E jid \<mapsto>
                                 CsvExport (export_table E (job_summary j) request_events))\<rparr>)) \<and>
            (\<forall>js. str_lower fmt = ''json'' \<and>
                  clean_rows (columns (export_table E (job_summary j) request_events))
                             (rows (export_table E (job_summary j) request_events)) = Inr js \<and>
                  write_error E (json_file E jid) = None \<longrightarrow>
               export_data E s jid request_events fmt =
                 (Inr (FileResponse (json_file E jid) ''application/json''
                         (''sof_events_'' @ take 8 jid @ ''.json'')),
                  s\<lparr>files := (files s)(json_file E jid \<mapsto> JsonExport js)\<rparr>)) \<and>
            (\<forall>x. fst (export_data E (s\<lparr>jobs := (jobs s)(jid \<mapsto> j\<lparr>events := x\<rparr>)\<rparr>) jid request_events fmt)
                   = fst (export_data E s jid request_events fmt) \<and>
                 files (snd (export_data E (s\<lparr>jobs := (jobs s)(jid \<mapsto> j\<lparr>events := x\<rparr>)\<rparr>) jid
                               request_events fmt))
                   = files (snd (export_data E s jid request_events fmt)))"
    proof
      assume r: "request_events \<noteq> []"
      from export_of_list [OF assms over [OF r] r, of E fmt] indep [OF r]
      show "export_data E s jid request_events fmt =
              (case export_body E s jid (job_summary j) request_events fmt of
                 (Inl e, s') \<Rightarrow> (Inl (export_handler e), s')
               | (Inr r, s') \<Rightarrow> (Inr r, s')) \<and>
            (str_lower fmt = ''csv'' \<and> write_error E (csv_file E jid) = None \<longrightarrow>
               export_data E s jid request_events fmt =
                 (Inr (FileResponse (csv_file E jid) ''text/csv''
                         (''sof_events_'' @ take 8 jid @ ''.csv'')),
                  s\<lparr>files := (files s)(csv_file E jid \<mapsto>
                                 CsvExport (export_table E (job_summary j) request_events))\<rparr>)) \<and>
            (\<forall>js. str_lower fmt = ''json'' \<and>
                  clean_rows (columns (export_table E (job_summary j) request_events))
                             (rows (export_table E (job_summary j) request_events)) = Inr js \<and>
                  write_error E (json_file E jid) = None \<longrightarrow>
               export_data E s jid request_events fmt =
                 (Inr (FileResponse (json_file E jid) ''application/json''
                         (''sof_events_'' @ take 8 jid @ ''.json'')),
                  s\<lparr>files := (files s)(json_file E jid \<mapsto> JsonExport js)\<rparr>)) \<and>
            (\<forall>x. fst (export_data E (s\<lparr>jobs := (jobs s)(jid \<mapsto> j\<lparr>events := x\<rparr>)\<rparr>) jid request_events fmt)
                   = fst (export_data E s jid request_events fmt) \<and>
                 files (snd (export_data E (s\<lparr>jobs := (jobs s)(jid \<mapsto> j\<lparr>events := x\<rparr>)\<rparr>) jid
                               request_events fmt))
                   = files (snd (export_data E s jid request_events fmt)))"
        by blast
    qed
  next
    show "\<forall>evs. events j = Some evs \<longrightarrow>
            export_data E s jid [] fmt = export_data E s jid (stored_events evs) fmt \<and>
            (evs \<noteq> [] \<longrightarrow>
               export_data E s jid [] fmt =
                 (case export_body E s jid (job_summary j) (stored_events evs) fmt of
                    (Inl e, s') \<Rightarrow> (Inl (export_handler e), s')
                  | (Inr r, s') \<Rightarrow> (Inr r, s')) \<and>
               (str_lower fmt = ''csv'' \<and> write_error E (csv_file E jid) = None \<longrightarrow>
                  export_data E s jid [] fmt =
                    (Inr (FileResponse (csv_file E jid) ''text/csv''
                            (''sof_events_'' @ take 8 jid @ ''.csv'')),
                     s\<lparr>files := (files s)(csv_file E jid \<mapsto>
                                    CsvExport (export_table E (job_summary j) (stored_events evs)))\<rparr>)) \<and>
               (\<forall>js. str_lower fmt = ''json'' \<and>
                     clean_rows (columns (export_table E (job_summary j) (stored_events evs)))
                                (rows (export_table E (job_summary j) (stored_events evs))) = Inr js \<and>
                     write_error E (json_file E jid) = None \<longrightarrow>
                  export_data E s jid [] fmt =
                    (Inr (FileResponse (json_file E jid) ''application/json''
                            (''sof_events_'' @ take 8 jid @ ''.json'')),
                     s\<lparr>files := (files s)(json_file E jid \<mapsto> JsonExport js)\<rparr>)))"
    proof (intro allI impI conjI)
      fix evs
      assume e: "events j = Some evs"
      show "export_data E s jid [] fmt = export_data E s jid (stored_events evs) fmt"
        by (rule same [OF e])
      assume n: "evs \<noteq> []"
      note L = export_of_list [OF assms stored [OF e] ne [OF n], of E fmt]
      from L show "export_data E s jid [] fmt =
                 (case export_body E s jid (job_summary j) (stored_events evs) fmt of
                    (Inl e, s') \<Rightarrow> (Inl (export_handler e), s')
                  | (Inr r, s') \<Rightarrow> (Inr r, s'))" by blast
      from L show "export_data E s jid [] fmt =
                    (Inr (FileResponse (csv_file E jid) ''text/csv''
                            (''sof_events_'' @ take 8 jid @ ''.csv'')),
                     s\<lparr>files := (files s)(csv_file E jid \<mapsto>
                                    CsvExport (export_table E (job_summary j) (stored_events evs)))\<rparr>)"
        if "str_lower fmt = ''csv'' \<and> write_error E (csv_file E jid) = None"
        using that by blast
      from L show "export_data E s jid [] fmt =
                    (Inr (FileResponse (json_file E jid) ''application/json''
                            (''sof_events_'' @ take 8 jid @ ''.json'')),
                     s\<lparr>files := (files s)(json_file E jid \<mapsto> JsonExport js)\<rparr>)"
        if "str_lower fmt = ''json'' \<and>
                     clean_rows (columns (export_table E (job_summary j) (stored_events evs)))
                                (rows (export_table E (job_summary j) (stored_events evs))) = Inr js \<and>
                     write_error E (json_file E jid) = None" for js
        using that by blast
    qed
  next
    show "jobs (snd (export_data E s jid request_events fmt)) = jobs s"
      by (rule export_jobs)
  qed
qed

lemma demo_override_table:
  "export_table demo_env [(''port'', Text ''Rotterdam'')]
     [[(''Date'', Text ''x''), (''filename'', Text ''f'')]] =
   \<lparr>columns = [''Date'', ''Laytime''], rows = [[Text ''x'', Opaque ''0.5'']]\<rparr>"
  by code_simp

text \<open>
  The completed demo job: the override export writes the table of the override list (Date,
  Laytime), the export without override the table of the stored events (Event, Laytime);
  the override export is the same after the stored events are unset.
\<close>

theorem export_event_source_witness:
  "export_data demo_env demo_done ''job1'' [[(''Date'', Text ''x''), (''filename'', Text ''f'')]] ''csv'' =
     (Inr (FileResponse ''results/job1_export.csv'' ''text/csv'' ''sof_events_job1.csv''),
      demo_done\<lparr>files := (files demo_done)(''results/job1_export.csv'' \<mapsto>
        CsvExport \<lparr>columns = [''Date'', ''Laytime''], rows = [[Text ''x'', Opaque ''0.5'']]\<rparr>)\<rparr>) \<and>
   export_data demo_env demo_done ''job1'' [] ''csv'' =
     (Inr (FileResponse ''results/job1_export.csv'' ''text/csv'' ''sof_events_job1.csv''),
      demo_done\<lparr>files := (files demo_done)(''results/job1_export.csv'' \<mapsto>
        CsvExport \<lparr>columns = [''Event'', ''Laytime''], rows = [[Text ''Arrived'', Opaque ''0.5'']]\<rparr>)\<rparr>) \<and>
   fst (export_data demo_env
          (demo_done\<lparr>jobs := (jobs demo_done)(''job1'' \<mapsto> (the (jobs demo_done ''job1''))\<lparr>events := None\<rparr>)\<rparr>)
          ''job1'' [[(''Date'', Text ''x''), (''filename'', Text ''f'')]] ''csv'') =
     fst (export_data demo_env demo_done ''job1'' [[(''Date'', Text ''x''), (''filename'', Text ''f'')]] ''csv'') \<and>
   jobs (snd (export_data demo_env demo_done ''job1'' [] ''csv'')) = jobs demo_done"
proof -
  let ?evs = "[[(''Event'', Some ''Arrived''), (''start'', Some ''2024-01-01T08:00:00''),
                (''laytime_counts'', Some ''True'')]]"
  let ?req = "[[(''Date'', Text ''x''), (''filename'', Text ''f'')]]"
  obtain j where j: "jobs demo_done ''job1'' = Some j"
    using demo_done_job by blast
  with demo_done_status have st: "status j = COMPLETED" by simp
  from j demo_done_events have ev: "events j = Some ?evs" by simp
  from j demo_done_summary have summ: "job_summary j = [(''port'', Text ''Rotterdam'')]" by simp
  from j have the_j: "the (jobs demo_done ''job1'') = j" by simp
  have ne: "?req \<noteq> []" and ne2: "?evs \<noteq> []" by simp_all
  have fmt: "str_lower ''csv'' = ''csv''"
    by (simp add: str_lower_def lower_char_def)
  have p: "csv_file demo_env ''job1'' = ''results/job1_export.csv''"
    by (simp add: csv_file_def path_join_def demo_env_def)
  have w: "write_error demo_env (csv_file demo_env ''job1'') = None"
    by (simp add: demo_env_def)
  have nm: "''sof_events_'' @ take 8 ''job1'' @ ''.csv'' = ''sof_events_job1.csv''" by simp
  note Tr = export_event_source [OF j st, where E = demo_env and fmt = "''csv''"
              and request_events = "[[(''Date'', Text ''x''), (''filename'', Text ''f'')]]"]
  note Te = export_event_source [OF j st, where E = demo_env and fmt = "''csv''"
              and request_events = "[]"]
  from Tr ne fmt w
  have 1: "export_data demo_env demo_done ''job1'' ?req ''csv'' =
     (Inr (FileResponse (csv_file demo_env ''job1'') ''text/csv'' (''sof_events_'' @ take 8 ''job1'' @ ''.csv'')),
      demo_done\<lparr>files := (files demo_done)(csv_file demo_env ''job1'' \<mapsto>
        CsvExport (export_table demo_env (job_summary j) ?req))\<rparr>)"
    by blast
  from Te ev ne2 fmt w
  have 2: "export_data demo_env demo_done ''job1'' [] ''csv'' =
     (Inr (FileResponse (csv_file demo_env ''job1'') ''text/csv'' (''sof_events_'' @ take 8 ''job1'' @ ''.csv'')),
      demo_done\<lparr>files := (files demo_done)(csv_file demo_env ''job1'' \<mapsto>
        CsvExport (export_table demo_env (job_summary j) (stored_events ?evs)))\<rparr>)"
    by blast
  from Tr ne
  have 3: "fst (export_data demo_env (demo_done\<lparr>jobs := (jobs demo_done)(''job1'' \<mapsto> j\<lparr>events := None\<rparr>)\<rparr>)
                  ''job1'' ?req ''csv'') = fst (export_data demo_env demo_done ''job1'' ?req ''csv'')"
    by blast
  from Te
  have 4: "jobs (snd (export_data demo_env demo_done ''job1'' [] ''csv'')) = jobs demo_done"
    by blast
  from 1 2 3 4 show ?thesis
    unfolding the_j summ p nm demo_table demo_override_table by blast
qed

lemma unsupported_format:
  assumes "jobs s jid = Some j" and "status j = COMPLETED"
    and "export_events j request_events = Inr evs" and "evs \<noteq> []"
    and "str_lower fmt \<noteq> ''csv''" and "str_lower fmt \<noteq> ''json''"
  shows "export_data E s jid request_events fmt = (Inl (export_handler invalid_format), s)"
  using assms by (simp add: export_data_def export_body_def Let_def)

lemma invalid_format_500: "status_code (export_handler invalid_format) = 500"
  by (simp add: export_handler_def)

text \<open>
  Claim C8, the code at a failing input. The format \<open>xml\<close> on the completed demo job:
  the 400 raised in the body is caught by the handler of \<open>export_data\<close> and reaches the
  caller as a 500; no artifact is written.
\<close>

theorem unsupported_format_is_500:
  "fst (export_data demo_env demo_done ''job1'' [] ''xml'') = Inl (export_handler invalid_format) \<and>
   status_code (export_handler invalid_format) = 500 \<and>
   status_code invalid_format = 400 \<and>
   files (snd (export_data demo_env demo_done ''job1'' [] ''xml'')) = files demo_done"
proof -
  let ?evs = "[[(''Event'', Some ''Arrived''), (''start'', Some ''2024-01-01T08:00:00''),
                (''laytime_counts'', Some ''True'')]]"
  obtain j where j: "jobs demo_done ''job1'' = Some j"
    using demo_done_job by blast
  with demo_done_status have st: "status j = COMPLETED" by simp
  from j demo_done_events have "events j = Some ?evs" by simp
  then have ev: "export_events j [] = Inr (stored_events ?evs)"
    by (simp add: export_events_def)
  have ne: "stored_events ?evs \<noteq> []" by (simp add: stored_events_def)
  have l: "str_lower ''xml'' \<noteq> ''csv''" "str_lower ''xml'' \<noteq> ''json''"
    by (simp_all add: str_lower_def lower_char_def)
  have c: "status_code invalid_format = 400"
    by (simp add: invalid_format_def)
  from unsupported_format [OF j st ev ne l, of demo_env] invalid_format_500 c
  show ?thesis by simp
qed

end
